theory Spec2Isabelle
  imports Complex_Main "HOL-Library.AList"
begin

section \<open>Python values\<close>

text \<open>
  JSON values as Python holds them after \<^verbatim>\<open>json.loads\<close> or a CDP call. A Python
  \<^verbatim>\<open>dict\<close> with string keys is an association list in insertion order; a Python
  \<^verbatim>\<open>str\<close> is a \<^typ>\<open>string\<close>; a Python \<^verbatim>\<open>float\<close> is read as the real number it
  denotes.
\<close>

datatype json =
    JNull
  | JBool bool
  | JInt int
  | JFloat real
  | JStr string
  | JList "json list"
  | JDict "(string \<times> json) list"

type_synonym pydict = "(string \<times> json) list"

text \<open>\<^verbatim>\<open>k in d\<close> and \<^verbatim>\<open>d.get(k, default)\<close> on a dict.\<close>

definition has_key :: "pydict \<Rightarrow> string \<Rightarrow> bool" where
  "has_key d k = (k \<in> set (map fst d))"

definition dict_get :: "pydict \<Rightarrow> string \<Rightarrow> json \<Rightarrow> json" where
  "dict_get d k dflt = (case map_of d k of None \<Rightarrow> dflt | Some v \<Rightarrow> v)"

text \<open>Truthiness of an optional dict, as in \<^verbatim>\<open>if params\<close>: \<^verbatim>\<open>None\<close> and \<^verbatim>\<open>{}\<close> are false.\<close>

definition truthy :: "pydict option \<Rightarrow> bool" where
  "truthy d = (case d of None \<Rightarrow> False | Some x \<Rightarrow> x \<noteq> [])"

text \<open>\<^verbatim>\<open>str.upper\<close> and \<^verbatim>\<open>str.lower\<close> on the ASCII letters; every other character is kept.\<close>

definition upper_char :: "char \<Rightarrow> char" where
  "upper_char c =
     (let n = (of_char c :: nat) in if 97 \<le> n \<and> n \<le> 122 then char_of (n - 32) else c)"

definition lower_char :: "char \<Rightarrow> char" where
  "lower_char c =
     (let n = (of_char c :: nat) in if 65 \<le> n \<and> n \<le> 90 then char_of (n + 32) else c)"

definition upper :: "string \<Rightarrow> string" where
  "upper s = map upper_char s"

definition lower :: "string \<Rightarrow> string" where
  "lower s = map lower_char s"

text \<open>
  The functions of the Python standard library that the client calls. They are not code
  of the repository, so every definition below takes them as the parameter \<open>lib\<close>:
  \<^item> \<open>sha256_hexdigest raw\<close> is \<^verbatim>\<open>hashlib.sha256(raw.encode("utf-8")).hexdigest()\<close>;
  \<^item> \<open>json_dumps sort_keys v\<close> is \<^verbatim>\<open>json.dumps(v, sort_keys=sort_keys)\<close>;
  \<^item> \<open>json_loads s\<close> is \<^verbatim>\<open>json.loads(s)\<close>, \<open>None\<close> when it raises \<^verbatim>\<open>JSONDecodeError\<close>;
  \<^item> \<open>urlencode doseq d\<close>, \<open>urljoin base rel\<close> are those of \<^verbatim>\<open>urllib.parse\<close>;
  \<^item> \<open>urlparse u\<close> gives the pair \<^verbatim>\<open>(scheme, netloc)\<close> of \<^verbatim>\<open>urllib.parse.urlparse(u)\<close>,
    \<open>None\<close> when it raises \<^verbatim>\<open>ValueError\<close>;
  \<^item> \<open>re_search p s\<close> is \<^verbatim>\<open>bool(re.search(p, s))\<close>, \<open>None\<close> when the pattern is refused;
  \<^item> \<open>py_str v\<close> is the text an f-string puts for \<^verbatim>\<open>{v}\<close>.
\<close>

record pylib =
  sha256_hexdigest :: "string \<Rightarrow> string"
  json_dumps :: "bool \<Rightarrow> json \<Rightarrow> string"
  json_loads :: "string \<Rightarrow> json option"
  urlencode :: "bool \<Rightarrow> pydict \<Rightarrow> string"
  urljoin :: "string \<Rightarrow> string \<Rightarrow> string"
  urlparse :: "string \<Rightarrow> (string \<times> string) option"
  re_search :: "string \<Rightarrow> string \<Rightarrow> bool option"
  py_str :: "json \<Rightarrow> string"

section \<open>cache.py: RequestCache\<close>

subsection \<open>generate_key\<close>

text \<open>
  \<^verbatim>\<open>params_str = json.dumps(params, sort_keys=True) if params else ""\<close>, and the same
  for \<^verbatim>\<open>data\<close> and \<^verbatim>\<open>json_data\<close>.
\<close>

definition normalized :: "pylib \<Rightarrow> pydict option \<Rightarrow> string" where
  "normalized lib d =
     (case d of
        None \<Rightarrow> ''''
      | Some x \<Rightarrow> if x = [] then '''' else json_dumps lib True (JDict x))"

text \<open>\<^verbatim>\<open>raw = f"{method.upper()}|{url}|{params_str}|{data_str}|{json_str}"\<close>\<close>

definition raw_key ::
  "pylib \<Rightarrow> string \<Rightarrow> string \<Rightarrow> pydict option \<Rightarrow> pydict option \<Rightarrow> pydict option \<Rightarrow> string" where
  "raw_key lib method url params data json_data =
     upper method @ ''|'' @ url @ ''|'' @ normalized lib params @ ''|''
       @ normalized lib data @ ''|'' @ normalized lib json_data"

definition generate_key ::
  "pylib \<Rightarrow> string \<Rightarrow> string \<Rightarrow> pydict option \<Rightarrow> pydict option \<Rightarrow> pydict option \<Rightarrow> string" where
  "generate_key lib method url params data json_data =
     sha256_hexdigest lib (raw_key lib method url params data json_data)"

text \<open>
  SHA-256 maps two given strings to different digests unless it collides on them.
\<close>

definition no_collision :: "pylib \<Rightarrow> string \<Rightarrow> string \<Rightarrow> bool" where
  "no_collision lib a b = (sha256_hexdigest lib a = sha256_hexdigest lib b \<longrightarrow> a = b)"

subsection \<open>The table\<close>

text \<open>
  The table \<^verbatim>\<open>cache (key TEXT PRIMARY KEY, value TEXT NOT NULL, expires_at REAL NOT NULL)\<close>:
  at most one row per key. A statement sent to SQLite either is carried out or raises
  \<^verbatim>\<open>sqlite3.Error\<close>, which every method catches and logs; a failed statement inside
  \<^verbatim>\<open>with self.conn\<close> is rolled back and leaves the table as it was.
\<close>

type_synonym cache_table = "string \<Rightarrow> (string \<times> real) option"

datatype sqlite_result = Done | SqliteError

definition REQUIRED_KEYS :: "string list" where
  "REQUIRED_KEYS =
     [''status'', ''statusText'', ''url'', ''headers'', ''text'', ''redirected'', ''type'']"

subsection \<open>_validate_data\<close>

definition validate_data :: "json \<Rightarrow> pydict option" where
  "validate_data data =
     (case data of
        JDict d \<Rightarrow> if list_all (has_key d) REQUIRED_KEYS then Some d else None
      | _ \<Rightarrow> None)"

subsection \<open>get\<close>

text \<open>
  \<open>now\<close> is the reading of \<^verbatim>\<open>time.time()\<close>; \<open>sel\<close> and \<open>del\<close> are the outcomes of the
  \<^verbatim>\<open>SELECT\<close> and of the \<^verbatim>\<open>DELETE\<close> of an expired row. The result is the returned value
  and the table afterwards.
\<close>

definition cache_get ::
  "pylib \<Rightarrow> real \<Rightarrow> sqlite_result \<Rightarrow> sqlite_result \<Rightarrow> cache_table \<Rightarrow> string
     \<Rightarrow> pydict option \<times> cache_table" where
  "cache_get lib now sel del tbl key =
     (case sel of
        SqliteError \<Rightarrow> (None, tbl)
      | Done \<Rightarrow>
          (case tbl key of
             None \<Rightarrow> (None, tbl)
           | Some (value_json, expires_at) \<Rightarrow>
               if now < expires_at then
                 (case json_loads lib value_json of
                    None \<Rightarrow> (None, tbl)
                  | Some data \<Rightarrow> (validate_data data, tbl))
               else
                 (case del of
                    SqliteError \<Rightarrow> (None, tbl)
                  | Done \<Rightarrow> (None, tbl(key := None)))))"

subsection \<open>set\<close>

definition cache_set ::
  "pylib \<Rightarrow> real \<Rightarrow> sqlite_result \<Rightarrow> cache_table \<Rightarrow> string \<Rightarrow> pydict \<Rightarrow> real \<Rightarrow> cache_table" where
  "cache_set lib now ins tbl key val ttl =
     (let expires_at = now + ttl;
          value_json = json_dumps lib False (JDict val)
      in case ins of
           SqliteError \<Rightarrow> tbl
         | Done \<Rightarrow> tbl(key \<mapsto> (value_json, expires_at)))"

subsection \<open>clear_expired and clear_all\<close>

definition clear_expired :: "real \<Rightarrow> sqlite_result \<Rightarrow> cache_table \<Rightarrow> cache_table" where
  "clear_expired now del tbl =
     (case del of
        SqliteError \<Rightarrow> tbl
      | Done \<Rightarrow>
          (\<lambda>k. case tbl k of
                 None \<Rightarrow> None
               | Some (value_json, expires_at) \<Rightarrow>
                   if expires_at < now then None else Some (value_json, expires_at)))"

definition clear_all :: "sqlite_result \<Rightarrow> cache_table \<Rightarrow> cache_table" where
  "clear_all del tbl = (case del of SqliteError \<Rightarrow> tbl | Done \<Rightarrow> Map.empty)"


section \<open>exceptions.py and the exceptions the client raises\<close>

text \<open>
  An exception is its class and its message. \<open>BrowserInitError\<close> is the repository's own
  class; \<open>RuntimeError\<close>, \<open>TimeoutError\<close>, \<open>AttributeError\<close> and \<open>TypeError\<close> are Python's
  built-in classes; \<open>ExternalError\<close> stands for any other subclass of \<^verbatim>\<open>Exception\<close> that
  the browser library raises.
\<close>

datatype exception_class =
    BrowserInitError
  | RuntimeError
  | TimeoutError
  | AttributeError
  | TypeError
  | ExternalError

datatype py_exception = Exc (exc_class: exception_class) (exc_message: string)

section \<open>Strings\<close>

text \<open>\<^verbatim>\<open>s.startswith(p)\<close>, \<^verbatim>\<open>sub in s\<close> and \<^verbatim>\<open>s.lstrip("/")\<close>.\<close>

definition startswith :: "string \<Rightarrow> string \<Rightarrow> bool" where
  "startswith s p = (take (length p) s = p)"

fun contains :: "string \<Rightarrow> string \<Rightarrow> bool" where
  "contains sub [] = (sub = [])"
| "contains sub (x # xs) = (startswith (x # xs) sub \<or> contains sub xs)"

definition lstrip_slash :: "string \<Rightarrow> string" where
  "lstrip_slash s = dropWhile (\<lambda>ch. ch = CHR ''/'') s"

text \<open>
  \<^verbatim>\<open>sub in v\<close> for a value \<open>v\<close> of any JSON type: a substring test on a \<^verbatim>\<open>str\<close>,
  membership in a \<^verbatim>\<open>list\<close>, a key test on a \<^verbatim>\<open>dict\<close>, and \<^verbatim>\<open>TypeError\<close> (here
  \<open>None\<close>) on a value that is not iterable.
\<close>

definition py_in :: "string \<Rightarrow> json \<Rightarrow> bool option" where
  "py_in sub v =
     (case v of
        JStr s \<Rightarrow> Some (contains sub s)
      | JList xs \<Rightarrow> Some (JStr sub \<in> set xs)
      | JDict d \<Rightarrow> Some (has_key d sub)
      | _ \<Rightarrow> None)"

text \<open>
  \<^verbatim>\<open>v <= 0\<close> for a value \<open>v\<close> of any JSON type: a comparison on a number (\<^verbatim>\<open>True\<close> is
  1 and \<^verbatim>\<open>False\<close> is 0), and \<^verbatim>\<open>TypeError\<close> (here \<open>None\<close>) on anything else.
\<close>

definition le_zero :: "json \<Rightarrow> bool option" where
  "le_zero v =
     (case v of
        JInt n \<Rightarrow> Some (n \<le> 0)
      | JFloat x \<Rightarrow> Some (x \<le> 0)
      | JBool b \<Rightarrow> Some (\<not> b)
      | _ \<Rightarrow> None)"

text \<open>The text of \<^verbatim>\<open>type(v)\<close> in an f-string.\<close>

definition type_name :: "json \<Rightarrow> string" where
  "type_name v =
     (case v of
        JNull \<Rightarrow> ''NoneType''
      | JBool b \<Rightarrow> ''bool''
      | JInt n \<Rightarrow> ''int''
      | JFloat x \<Rightarrow> ''float''
      | JStr s \<Rightarrow> ''str''
      | JList xs \<Rightarrow> ''list''
      | JDict d \<Rightarrow> ''dict'')"

section \<open>response.py: Response\<close>

record response =
  raw_data :: pydict
  status_code :: json
  resp_url :: json
  resp_headers :: pydict
  resp_text :: json

text \<open>
  \<^verbatim>\<open>Response.__init__\<close>. The comprehension \<^verbatim>\<open>{k.lower(): v for k, v in ....items()}\<close>
  writes the headers one by one, a later one replacing an earlier one with the same
  lowered name. A \<^verbatim>\<open>headers\<close> value without \<^verbatim>\<open>.items()\<close> raises \<^verbatim>\<open>AttributeError\<close>.
\<close>

definition lower_headers :: "pydict \<Rightarrow> pydict" where
  "lower_headers h = foldl (\<lambda>acc (k, v). AList.update (lower k) v acc) [] h"

definition Response :: "pydict \<Rightarrow> py_exception + response" where
  "Response raw =
     (case dict_get raw ''headers'' (JDict []) of
        JDict h \<Rightarrow>
          Inr \<lparr> raw_data = raw,
                status_code = dict_get raw ''status'' (JInt 0),
                resp_url = dict_get raw ''url'' (JStr ''''),
                resp_headers = lower_headers h,
                resp_text = dict_get raw ''text'' (JStr '''') \<rparr>
      | v \<Rightarrow> Inl (Exc AttributeError (type_name v @ '' object has no attribute items'')))"

text \<open>
  \<^verbatim>\<open>Response.ok\<close>: \<^verbatim>\<open>200 <= self.status_code < 300\<close>, and \<open>False\<close> when the
  comparison raises \<^verbatim>\<open>TypeError\<close>.
\<close>

definition ok :: "response \<Rightarrow> bool" where
  "ok r =
     (case status_code r of
        JInt n \<Rightarrow> 200 \<le> n \<and> n < 300
      | JFloat x \<Rightarrow> 200 \<le> x \<and> x < 300
      | JBool b \<Rightarrow> 200 \<le> (if b then (1::int) else 0) \<and> (if b then (1::int) else 0) < 300
      | _ \<Rightarrow> False)"

section \<open>The browser and the clock\<close>

text \<open>
  The browser (DrissionPage's \<^verbatim>\<open>ChromiumPage\<close>), SQLite and the clock are outside the
  repository. The \<open>world\<close> holds the clock, a counter of the calls made so far, and the
  list of the calls made to the browser, oldest first. What the \<open>n\<close>-th call answers is
  given by the environment \<open>env\<close>, which every theorem leaves arbitrary: an answer is a
  result or the exception raised. Each call takes the time \<open>\<bar>latency env n\<bar>\<close>.
\<close>

record chromium_options =
  user_data_path :: string
  opt_headless :: bool
  opt_user_agent :: "string option"

datatype page = ChromiumPage chromium_options

text \<open>
  The script that \<^verbatim>\<open>_exec_fetch\<close> sends: a fixed text around the serialized url, the
  serialized options and the timeout in milliseconds.
\<close>

datatype fetch_script = FetchScript string string int

datatype browser_call =
    NewPage chromium_options
  | Quit
  | Get string
  | Url
  | UserAgent
  | Cookies
  | SetCookies "pydict list"
  | Refresh
  | WaitLoadStart
  | WaitDocLoaded
  | RunCdp fetch_script

record world =
  clock :: real
  tick :: nat
  calls :: "browser_call list"

record env =
  latency :: "nat \<Rightarrow> real"
  new_page :: "nat \<Rightarrow> chromium_options \<Rightarrow> py_exception option"
  page_get :: "nat \<Rightarrow> string \<Rightarrow> py_exception option"
  page_url :: "nat \<Rightarrow> py_exception + string"
  page_user_agent :: "nat \<Rightarrow> py_exception + string"
  page_cookies :: "nat \<Rightarrow> py_exception + pydict list"
  page_set_cookies :: "nat \<Rightarrow> pydict list \<Rightarrow> py_exception option"
  page_refresh :: "nat \<Rightarrow> py_exception option"
  page_wait_load_start :: "nat \<Rightarrow> py_exception option"
  page_wait_doc_loaded :: "nat \<Rightarrow> py_exception option"
  page_run_cdp :: "nat \<Rightarrow> fetch_script \<Rightarrow> py_exception + pydict"
  sqlite :: "nat \<Rightarrow> sqlite_result"

definition called :: "env \<Rightarrow> browser_call \<Rightarrow> world \<Rightarrow> world" where
  "called env c w =
     w\<lparr> clock := clock w + \<bar>latency env (tick w)\<bar>, tick := Suc (tick w), calls := calls w @ [c] \<rparr>"

text \<open>\<^verbatim>\<open>time.sleep(d)\<close>\<close>

definition sleep :: "real \<Rightarrow> world \<Rightarrow> world" where
  "sleep d w = w\<lparr> clock := clock w + d \<rparr>"

section \<open>client.py: Client\<close>

record client =
  base_url :: "string option"
  profile_dir :: string
  headless :: bool
  auto_navigate_for_cors :: bool
  cache :: cache_table
  page :: "page option"
  user_agent :: "string option"

subsection \<open>_init_browser\<close>

definition init_browser :: "env \<Rightarrow> client \<Rightarrow> world \<Rightarrow> py_exception option \<times> client \<times> world" where
  "init_browser env c w =
     (let options =
            \<lparr> user_data_path = profile_dir c,
              opt_headless = headless c,
              opt_user_agent =
                (case user_agent c of
                   None \<Rightarrow> None
                 | Some ua \<Rightarrow> if ua = [] then None else Some ua) \<rparr>
      in case new_page env (tick w) options of
           Some e \<Rightarrow>
             (Some (Exc BrowserInitError (''Failed to initialize browser: '' @ exc_message e)),
              c, called env (NewPage options) w)
         | None \<Rightarrow>
             (None, c\<lparr> page := Some (ChromiumPage options) \<rparr>, called env (NewPage options) w))"

subsection \<open>The page property and the calls made through it\<close>

definition not_initialized :: py_exception where
  "not_initialized = Exc BrowserInitError ''Browser has not been initialized.''"

definition do_get :: "env \<Rightarrow> client \<Rightarrow> string \<Rightarrow> world \<Rightarrow> py_exception option \<times> world" where
  "do_get env c u w =
     (case page c of
        None \<Rightarrow> (Some not_initialized, w)
      | Some p \<Rightarrow> (page_get env (tick w) u, called env (Get u) w))"

definition read_url :: "env \<Rightarrow> client \<Rightarrow> world \<Rightarrow> (py_exception + string) \<times> world" where
  "read_url env c w =
     (case page c of
        None \<Rightarrow> (Inl not_initialized, w)
      | Some p \<Rightarrow> (page_url env (tick w), called env Url w))"

definition read_user_agent :: "env \<Rightarrow> client \<Rightarrow> world \<Rightarrow> (py_exception + string) \<times> world" where
  "read_user_agent env c w =
     (case page c of
        None \<Rightarrow> (Inl not_initialized, w)
      | Some p \<Rightarrow> (page_user_agent env (tick w), called env UserAgent w))"

definition read_cookies :: "env \<Rightarrow> client \<Rightarrow> world \<Rightarrow> (py_exception + pydict list) \<times> world" where
  "read_cookies env c w =
     (case page c of
        None \<Rightarrow> (Inl not_initialized, w)
      | Some p \<Rightarrow> (page_cookies env (tick w), called env Cookies w))"

definition do_set_cookies ::
  "env \<Rightarrow> client \<Rightarrow> pydict list \<Rightarrow> world \<Rightarrow> py_exception option \<times> world" where
  "do_set_cookies env c cs w =
     (case page c of
        None \<Rightarrow> (Some not_initialized, w)
      | Some p \<Rightarrow> (page_set_cookies env (tick w) cs, called env (SetCookies cs) w))"

definition do_refresh :: "env \<Rightarrow> client \<Rightarrow> world \<Rightarrow> py_exception option \<times> world" where
  "do_refresh env c w =
     (case page c of
        None \<Rightarrow> (Some not_initialized, w)
      | Some p \<Rightarrow> (page_refresh env (tick w), called env Refresh w))"

definition do_wait_load_start :: "env \<Rightarrow> client \<Rightarrow> world \<Rightarrow> py_exception option \<times> world" where
  "do_wait_load_start env c w =
     (case page c of
        None \<Rightarrow> (Some not_initialized, w)
      | Some p \<Rightarrow> (page_wait_load_start env (tick w), called env WaitLoadStart w))"

definition do_wait_doc_loaded :: "env \<Rightarrow> client \<Rightarrow> world \<Rightarrow> py_exception option \<times> world" where
  "do_wait_doc_loaded env c w =
     (case page c of
        None \<Rightarrow> (Some not_initialized, w)
      | Some p \<Rightarrow> (page_wait_doc_loaded env (tick w), called env WaitDocLoaded w))"

definition do_run_cdp ::
  "env \<Rightarrow> client \<Rightarrow> fetch_script \<Rightarrow> world \<Rightarrow> (py_exception + pydict) \<times> world" where
  "do_run_cdp env c script w =
     (case page c of
        None \<Rightarrow> (Inl not_initialized, w)
      | Some p \<Rightarrow> (page_run_cdp env (tick w) script, called env (RunCdp script) w))"

subsection \<open>current_url\<close>

definition current_url :: "env \<Rightarrow> client \<Rightarrow> world \<Rightarrow> (py_exception + string) \<times> world" where
  "current_url env c w =
     (case page c of
        None \<Rightarrow> (Inr '''', w)
      | Some p \<Rightarrow> read_url env c w)"

subsection \<open>_resolve_url\<close>

definition resolve_url :: "pylib \<Rightarrow> client \<Rightarrow> string \<Rightarrow> string" where
  "resolve_url lib c endpoint =
     (if startswith endpoint ''http://'' \<or> startswith endpoint ''https://'' then endpoint
      else
        (case base_url c of
           None \<Rightarrow> endpoint
         | Some b \<Rightarrow>
             if b = [] then endpoint else urljoin lib (b @ ''/'') (lstrip_slash endpoint)))"

subsection \<open>_ensure_cors_context\<close>

text \<open>Every exception raised in the body is swallowed; only the world changes.\<close>

definition ensure_cors_context :: "env \<Rightarrow> pylib \<Rightarrow> client \<Rightarrow> string \<Rightarrow> world \<Rightarrow> world" where
  "ensure_cors_context env lib c url w =
     (if \<not> auto_navigate_for_cors c then w
      else
        (case urlparse lib url of
           None \<Rightarrow> w
         | Some (target_scheme0, target_netloc) \<Rightarrow>
             (case current_url env c w of
                (Inl e, w1) \<Rightarrow> w1
              | (Inr cur, w1) \<Rightarrow>
                  (case urlparse lib cur of
                     None \<Rightarrow> w1
                   | Some (current_scheme, current_netloc) \<Rightarrow>
                       if target_netloc = [] \<or> target_netloc = current_netloc then w1
                       else
                         (let target_scheme =
                                (if target_scheme0 = [] then ''https'' else target_scheme0);
                              target_origin = target_scheme @ ''://'' @ target_netloc
                          in snd (do_get env c target_origin w1))))))"

subsection \<open>_validate_fetch_response\<close>

definition validate_fetch_response :: "json \<Rightarrow> pydict option" where
  "validate_fetch_response data =
     (case data of
        JDict d \<Rightarrow>
          if list_all (has_key d)
               [''status'', ''statusText'', ''url'', ''headers'', ''text'', ''redirected'', ''type'']
          then Some d else None
      | _ \<Rightarrow> None)"

subsection \<open>_exec_fetch\<close>

text \<open>\<^verbatim>\<open>int(timeout * 1000)\<close> rounds towards zero.\<close>

definition timeout_ms_of :: "real \<Rightarrow> int" where
  "timeout_ms_of timeout =
     (if 0 \<le> timeout then \<lfloor>timeout * 1000\<rfloor> else \<lceil>timeout * 1000\<rceil>)"

definition structure_error :: "pylib \<Rightarrow> pydict \<Rightarrow> py_exception" where
  "structure_error lib result_value =
     Exc RuntimeError
       (''Invalid fetch response structure. Keys found: ''
          @ py_str lib (JList (map (\<lambda>(k, v). JStr k) result_value)))"

text \<open>
  What \<^verbatim>\<open>_exec_fetch\<close> makes of the dict \<^verbatim>\<open>cdp_res\<close> that \<^verbatim>\<open>run_cdp\<close> returned: the
  response, or the exception raised.
\<close>

definition read_cdp_result :: "pylib \<Rightarrow> real \<Rightarrow> pydict \<Rightarrow> py_exception + response" where
  "read_cdp_result lib timeout cdp_res =
     (if has_key cdp_res ''exceptionDetails'' then
        Inl (Exc RuntimeError
          (''JS Execution Error: '' @ py_str lib (dict_get cdp_res ''exceptionDetails'' JNull)))
      else
        (case dict_get cdp_res ''result'' (JDict []) of
           JDict res \<Rightarrow>
             (case dict_get res ''value'' JNull of
                JDict result_value \<Rightarrow>
                  if has_key result_value ''error'' then
                    (let err_msg = dict_get result_value ''error'' JNull
                     in case py_in ''AbortError'' err_msg of
                          None \<Rightarrow>
                            Inl (Exc TypeError
                              (''argument of type '' @ type_name err_msg @ '' is not iterable''))
                        | Some True \<Rightarrow>
                            Inl (Exc TimeoutError
                              (''Request timed out after '' @ py_str lib (JFloat timeout)
                                 @ '' seconds''))
                        | Some False \<Rightarrow>
                            Inl (Exc RuntimeError (''Fetch failed: '' @ py_str lib err_msg)))
                  else
                    (case validate_fetch_response (JDict result_value) of
                       None \<Rightarrow> Inl (structure_error lib result_value)
                     | Some response_data \<Rightarrow>
                         if response_data = [] then Inl (structure_error lib result_value)
                         else Response response_data)
              | v \<Rightarrow> Inl (Exc RuntimeError (''Unexpected JS result type: '' @ type_name v)))
         | v \<Rightarrow> Inl (Exc AttributeError (type_name v @ '' object has no attribute get''))))"

definition exec_fetch ::
  "env \<Rightarrow> pylib \<Rightarrow> client \<Rightarrow> string \<Rightarrow> pydict \<Rightarrow> real \<Rightarrow> world
     \<Rightarrow> (py_exception + response) \<times> world" where
  "exec_fetch env lib c url options timeout w =
     (let safe_url = json_dumps lib False (JStr url);
          safe_options = json_dumps lib False (JDict options);
          timeout_ms = timeout_ms_of timeout;
          js_script = FetchScript safe_url safe_options timeout_ms
      in case do_run_cdp env c js_script w of
           (Inl e, w1) \<Rightarrow> (Inl e, w1)
         | (Inr cdp_res, w1) \<Rightarrow> (read_cdp_result lib timeout cdp_res, w1))"

text \<open>The class of the exception raised, \<open>None\<close> when a value is returned.\<close>

definition raised_class :: "py_exception + 'a \<Rightarrow> exception_class option" where
  "raised_class r = (case r of Inl e \<Rightarrow> Some (exc_class e) | Inr v \<Rightarrow> None)"

subsection \<open>request\<close>

text \<open>
  \<^verbatim>\<open>cache_ttl\<close> is a number of seconds or a \<^verbatim>\<open>timedelta\<close>, which holds days, seconds
  and microseconds. \<open>ttl_seconds\<close> is \<^verbatim>\<open>cache_ttl.total_seconds()\<close> for the one and
  \<^verbatim>\<open>float(cache_ttl)\<close> for the other.
\<close>

datatype cache_ttl = Seconds real | Timedelta int int int

definition ttl_seconds :: "cache_ttl \<Rightarrow> real" where
  "ttl_seconds t =
     (case t of
        Seconds x \<Rightarrow> x
      | Timedelta days secs micros \<Rightarrow>
          real_of_int ((days * 86400 + secs) * 1000000 + micros) / 1000000)"

text \<open>
  The url after \<^verbatim>\<open>_resolve_url\<close> and after the query string of \<^verbatim>\<open>params\<close> is appended.
\<close>

definition full_url :: "pylib \<Rightarrow> client \<Rightarrow> string \<Rightarrow> pydict option \<Rightarrow> string" where
  "full_url lib c endpoint params =
     (let resolved = resolve_url lib c endpoint
      in if truthy params then
           (case params of
              Some p \<Rightarrow>
                (let query_string = urlencode lib False p;
                     joiner = (if contains ''?'' resolved then ''&'' else ''?'')
                 in resolved @ joiner @ query_string)
            | None \<Rightarrow> resolved)
         else resolved)"

text \<open>
  \<^verbatim>\<open>self.cache.get(key)\<close> and \<^verbatim>\<open>self.cache.set(key, value, ttl)\<close> on the client's
  cache: the clock is read, and the SQLite statements get their outcomes from \<open>env\<close>.
\<close>

definition client_cache_get ::
  "env \<Rightarrow> pylib \<Rightarrow> string \<Rightarrow> client \<Rightarrow> world \<Rightarrow> pydict option \<times> client \<times> world" where
  "client_cache_get env lib key c w =
     (case cache_get lib (clock w) (sqlite env (tick w)) (sqlite env (Suc (tick w))) (cache c) key of
        (r, tbl) \<Rightarrow> (r, c\<lparr> cache := tbl \<rparr>, w\<lparr> tick := tick w + 2 \<rparr>))"

definition client_cache_set ::
  "env \<Rightarrow> pylib \<Rightarrow> string \<Rightarrow> pydict \<Rightarrow> real \<Rightarrow> client \<Rightarrow> world \<Rightarrow> client \<times> world" where
  "client_cache_set env lib key val ttl c w =
     (c\<lparr> cache := cache_set lib (clock w) (sqlite env (tick w)) (cache c) key val ttl \<rparr>,
      w\<lparr> tick := Suc (tick w) \<rparr>)"

text \<open>The fetch options: method, headers, and the body of a json or form request.\<close>

definition with_content_type :: "(string \<times> string) list \<Rightarrow> string \<Rightarrow> (string \<times> string) list" where
  "with_content_type hs ct =
     (if ''Content-Type'' \<in> set (map fst hs) then hs else hs @ [(''Content-Type'', ct)])"

definition fetch_options ::
  "pylib \<Rightarrow> string \<Rightarrow> (string \<times> string) list option \<Rightarrow> pydict option \<Rightarrow> pydict option \<Rightarrow> pydict" where
  "fetch_options lib method headers data json_data =
     (let hs = (case headers of None \<Rightarrow> [] | Some h \<Rightarrow> h);
          as_json = (\<lambda>h. JDict (map (\<lambda>(k, v). (k, JStr v)) h))
      in case json_data of
           Some j \<Rightarrow>
             [(''method'', JStr (upper method)),
              (''headers'', as_json (with_content_type hs ''application/json'')),
              (''body'', JStr (json_dumps lib False (JDict j)))]
         | None \<Rightarrow>
             (case data of
                Some d \<Rightarrow>
                  [(''method'', JStr (upper method)),
                   (''headers'',
                      as_json (with_content_type hs ''application/x-www-form-urlencoded'')),
                   (''body'', JStr (urlencode lib True d))]
              | None \<Rightarrow> [(''method'', JStr (upper method)), (''headers'', as_json hs)]))"

text \<open>
  The part of \<^verbatim>\<open>request\<close> after the cache lookup has not returned: build the options,
  fetch, and store the response when \<^verbatim>\<open>cache_ttl is not None and response.ok\<close>.
\<close>

definition fetch_and_store ::
  "env \<Rightarrow> pylib \<Rightarrow> string \<Rightarrow> string \<Rightarrow> pydict option \<Rightarrow> pydict option
     \<Rightarrow> (string \<times> string) list option \<Rightarrow> real \<Rightarrow> cache_ttl option \<Rightarrow> string \<Rightarrow> client \<Rightarrow> world
     \<Rightarrow> (py_exception + response) \<times> client \<times> world" where
  "fetch_and_store env lib method url data json_data headers timeout ttl cache_key c w =
     (let options = fetch_options lib method headers data json_data
      in case exec_fetch env lib c url options timeout w of
           (Inl e, w1) \<Rightarrow> (Inl e, c, w1)
         | (Inr resp, w1) \<Rightarrow>
             (case ttl of
                None \<Rightarrow> (Inr resp, c, w1)
              | Some t \<Rightarrow>
                  if ok resp then
                    (case client_cache_set env lib cache_key (raw_data resp) (ttl_seconds t) c w1 of
                       (c2, w2) \<Rightarrow> (Inr resp, c2, w2))
                  else (Inr resp, c, w1)))"

definition request ::
  "env \<Rightarrow> pylib \<Rightarrow> string \<Rightarrow> string \<Rightarrow> pydict option \<Rightarrow> pydict option \<Rightarrow> pydict option
     \<Rightarrow> (string \<times> string) list option \<Rightarrow> real \<Rightarrow> cache_ttl option \<Rightarrow> client \<Rightarrow> world
     \<Rightarrow> (py_exception + response) \<times> client \<times> world" where
  "request env lib method endpoint params data json_data headers timeout ttl c w =
     (let url = full_url lib c endpoint params;
          w1 = ensure_cors_context env lib c url w
      in case ttl of
           None \<Rightarrow>
             fetch_and_store env lib method url data json_data headers timeout ttl '''' c w1
         | Some t \<Rightarrow>
             (let cache_key = generate_key lib method url None data json_data
              in case client_cache_get env lib cache_key c w1 of
                   (cached_data, c2, w2) \<Rightarrow>
                     if truthy cached_data then
                       (case cached_data of
                          Some d \<Rightarrow> (Response d, c2, w2)
                        | None \<Rightarrow>
                            fetch_and_store env lib method url data json_data headers timeout
                              ttl cache_key c2 w2)
                     else
                       fetch_and_store env lib method url data json_data headers timeout
                         ttl cache_key c2 w2))"

subsection \<open>_restart_browser\<close>

text \<open>An exception of \<^verbatim>\<open>quit()\<close> is ignored, so its outcome is not asked of \<open>env\<close>.\<close>

definition restart_browser ::
  "env \<Rightarrow> bool \<Rightarrow> client \<Rightarrow> world \<Rightarrow> py_exception option \<times> client \<times> world" where
  "restart_browser env hl c w =
     (let (c1, w1) =
            (case page c of
               None \<Rightarrow> (c, w)
             | Some p \<Rightarrow> (c\<lparr> page := None \<rparr>, called env Quit w));
          w2 = sleep 2 w1;
          c2 = c1\<lparr> headless := hl \<rparr>
      in init_browser env c2 w2)"

subsection \<open>wait_for_login\<close>

text \<open>
  The cookies are sanitized one after the other; a value of \<^verbatim>\<open>expires\<close> that cannot be
  compared with 0 raises \<^verbatim>\<open>TypeError\<close>, which ends the restore.
\<close>

definition allowed_keys :: "string list" where
  "allowed_keys =
     [''name'', ''value'', ''domain'', ''path'', ''expires'', ''size'', ''httpOnly'', ''secure'',
      ''sameSite'', ''priority'']"

definition sanitize_cookie :: "pydict \<Rightarrow> py_exception + pydict" where
  "sanitize_cookie c =
     (let clean_cookie = filter (\<lambda>(k, v). k \<in> set allowed_keys) c
      in case le_zero (dict_get clean_cookie ''expires'' (JInt 0)) of
           None \<Rightarrow> Inl (Exc TypeError ''<= not supported'')
         | Some True \<Rightarrow> Inr (filter (\<lambda>(k, v). k \<noteq> ''expires'') clean_cookie)
         | Some False \<Rightarrow> Inr clean_cookie)"

fun sanitize_cookies :: "pydict list \<Rightarrow> py_exception + pydict list" where
  "sanitize_cookies [] = Inr []"
| "sanitize_cookies (c # cs) =
     (case sanitize_cookie c of
        Inl e \<Rightarrow> Inl e
      | Inr clean_cookie \<Rightarrow>
          (case sanitize_cookies cs of
             Inl e \<Rightarrow> Inl e
           | Inr sanitized \<Rightarrow> Inr (clean_cookie # sanitized)))"

text \<open>One round of the \<^verbatim>\<open>while True\<close> loop: it breaks or goes on after \<^verbatim>\<open>sleep(1.0)\<close>.\<close>

datatype poll_step =
    Break "pydict list option" client world
  | Continue client world

definition poll_once ::
  "env \<Rightarrow> pylib \<Rightarrow> string \<Rightarrow> real \<Rightarrow> real \<Rightarrow> client \<Rightarrow> world \<Rightarrow> poll_step" where
  "poll_once env lib success_pattern timeout start_time c w =
     (if clock w - start_time > timeout then Break None c w
      else
        (case read_url env c w of
           (Inl e, w1) \<Rightarrow> Continue c (sleep 1 w1)
         | (Inr current, w1) \<Rightarrow>
             (case re_search lib success_pattern current of
                None \<Rightarrow> Continue c (sleep 1 w1)
              | Some False \<Rightarrow> Continue c (sleep 1 w1)
              | Some True \<Rightarrow>
                  (case (case read_user_agent env c w1 of
                           (Inl e, w2) \<Rightarrow> (c, w2)
                         | (Inr ua, w2) \<Rightarrow> (c\<lparr> user_agent := Some ua \<rparr>, w2)) of
                     (c2, w2) \<Rightarrow>
                       (case read_cookies env c2 (sleep 3 w2) of
                          (Inl e, w3) \<Rightarrow> Continue c2 (sleep 1 w3)
                        | (Inr captured_cookies, w3) \<Rightarrow> Break (Some captured_cookies) c2 w3)))))"

lemma poll_once_Continue:
  assumes "poll_once env lib success_pattern timeout start_time c w = Continue c' w'"
  shows "clock w - start_time \<le> timeout \<and> clock w + 1 \<le> clock w'"
  using assms
  by (auto simp: poll_once_def read_url_def read_user_agent_def read_cookies_def sleep_def
      called_def
      split: if_splits prod.splits sum.splits option.splits bool.splits)

function poll ::
  "env \<Rightarrow> pylib \<Rightarrow> string \<Rightarrow> real \<Rightarrow> real \<Rightarrow> client \<Rightarrow> world
     \<Rightarrow> pydict list option \<times> client \<times> world" where
  "poll env lib success_pattern timeout start_time c w =
     (case poll_once env lib success_pattern timeout start_time c w of
        Break captured_cookies c' w' \<Rightarrow> (captured_cookies, c', w')
      | Continue c' w' \<Rightarrow> poll env lib success_pattern timeout start_time c' w')"
  by pat_completeness auto
termination
proof (relation "measure (\<lambda>(env, lib, success_pattern, timeout, start_time, c, w).
                   nat (\<lfloor>timeout - (clock w - start_time)\<rfloor> + 1))")
  show "wf (measure (\<lambda>(env :: env, lib :: pylib, success_pattern :: string, timeout,
          start_time, c :: client, w). nat (\<lfloor>timeout - (clock w - start_time)\<rfloor> + 1)))"
    by simp
next
  fix env lib success_pattern timeout start_time c w c' w'
  assume "poll_once env lib success_pattern timeout start_time c w = Continue c' w'"
  then have a: "clock w - start_time \<le> timeout" and b: "clock w + 1 \<le> clock w'"
    using poll_once_Continue by blast+
  from a have "0 \<le> \<lfloor>timeout - (clock w - start_time)\<rfloor>"
    by simp
  moreover from b have "\<lfloor>timeout - (clock w' - start_time)\<rfloor> \<le> \<lfloor>timeout - (clock w - start_time) - 1\<rfloor>"
    by (intro floor_mono) simp
  moreover have "\<lfloor>timeout - (clock w - start_time) - 1\<rfloor> = \<lfloor>timeout - (clock w - start_time)\<rfloor> - 1"
    by simp
  ultimately show "((env, lib, success_pattern, timeout, start_time, c', w'),
                    (env, lib, success_pattern, timeout, start_time, c, w))
        \<in> measure (\<lambda>(env, lib, success_pattern, timeout, start_time, c, w).
                   nat (\<lfloor>timeout - (clock w - start_time)\<rfloor> + 1))"
    by simp
qed

declare poll.simps [simp del]

text \<open>
  The \<^verbatim>\<open>try\<close> block: the exception that leaves it (if any), the captured cookies, and
  the client and the world where the \<^verbatim>\<open>finally\<close> block starts.
\<close>

definition login_try ::
  "env \<Rightarrow> pylib \<Rightarrow> string \<Rightarrow> real \<Rightarrow> string option \<Rightarrow> string \<Rightarrow> client \<Rightarrow> world
     \<Rightarrow> py_exception option \<times> pydict list option \<times> client \<times> world" where
  "login_try env lib success_pattern timeout start_url original_url c w =
     (let target_url =
            (case start_url of
               None \<Rightarrow> original_url
             | Some s \<Rightarrow> if s = [] then original_url else s)
      in case (if target_url \<noteq> [] \<and> target_url \<noteq> ''about:blank''
               then do_get env c target_url w else (None, w)) of
           (Some e, w1) \<Rightarrow> (Some e, None, c, w1)
         | (None, w1) \<Rightarrow>
             (case poll env lib success_pattern timeout (clock w1) c w1 of
                (captured_cookies, c', w') \<Rightarrow> (None, captured_cookies, c', w')))"

text \<open>
  The origin on which the cookies are set: that of \<^verbatim>\<open>start_url\<close>, else that of
  \<^verbatim>\<open>original_url\<close>, else \<^verbatim>\<open>base_url\<close>; \<open>Inl\<close> when \<^verbatim>\<open>urlparse\<close> raises.
\<close>

definition origin_of :: "pylib \<Rightarrow> string \<Rightarrow> py_exception + string option" where
  "origin_of lib u =
     (case urlparse lib u of
        None \<Rightarrow> Inl (Exc ExternalError ''urlparse'')
      | Some (scheme, netloc) \<Rightarrow>
          if scheme \<noteq> [] \<and> netloc \<noteq> [] then Inr (Some (scheme @ ''://'' @ netloc))
          else Inr None)"

definition restore_target ::
  "pylib \<Rightarrow> client \<Rightarrow> string option \<Rightarrow> string \<Rightarrow> py_exception + string option" where
  "restore_target lib c start_url original_url =
     (case (case start_url of
              None \<Rightarrow> Inr None
            | Some s \<Rightarrow> if s = [] then Inr None else origin_of lib s) of
        Inl e \<Rightarrow> Inl e
      | Inr t1 \<Rightarrow>
          (case (if (t1 = None \<or> t1 = Some []) \<and> original_url \<noteq> []
                    \<and> contains ''://'' original_url
                 then (case origin_of lib original_url of
                         Inl e \<Rightarrow> Inl e
                       | Inr None \<Rightarrow> Inr t1
                       | Inr (Some t) \<Rightarrow> Inr (Some t))
                 else Inr t1) of
             Inl e \<Rightarrow> Inl e
           | Inr t2 \<Rightarrow>
               if t2 = None \<or> t2 = Some [] then
                 (case base_url c of
                    None \<Rightarrow> Inr t2
                  | Some b \<Rightarrow> if b = [] then Inr t2 else Inr (Some b))
               else Inr t2))"

text \<open>
  The \<^verbatim>\<open>if captured_cookies:\<close> block of the \<^verbatim>\<open>finally\<close> part. Every exception in it
  is caught and logged, so only the world changes.
\<close>

definition restore_cookies ::
  "env \<Rightarrow> pylib \<Rightarrow> string option \<Rightarrow> string \<Rightarrow> pydict list option \<Rightarrow> client \<Rightarrow> world \<Rightarrow> world" where
  "restore_cookies env lib start_url original_url captured_cookies c w =
     (case captured_cookies of
        None \<Rightarrow> w
      | Some cookies \<Rightarrow>
          if cookies = [] then w
          else
            (case restore_target lib c start_url original_url of
               Inl e \<Rightarrow> w
             | Inr target \<Rightarrow>
                 (case (case target of
                          None \<Rightarrow> (None, w)
                        | Some t \<Rightarrow> if t = [] then (None, w) else do_get env c t w) of
                    (Some e, w1) \<Rightarrow> w1
                  | (None, w1) \<Rightarrow>
                      (case sanitize_cookies cookies of
                         Inl e \<Rightarrow> w1
                       | Inr sanitized_cookies \<Rightarrow>
                           (case do_set_cookies env c sanitized_cookies w1 of
                              (Some e, w2) \<Rightarrow> w2
                            | (None, w2) \<Rightarrow>
                                (case do_refresh env c w2 of
                                   (Some e, w3) \<Rightarrow> w3
                                 | (None, w3) \<Rightarrow>
                                     (case do_wait_load_start env c w3 of
                                        (Some e, w4) \<Rightarrow> w4
                                      | (None, w4) \<Rightarrow>
                                          snd (do_wait_doc_loaded env c w4))))))))"

text \<open>
  The result is the exception that leaves \<^verbatim>\<open>wait_for_login\<close> (\<open>None\<close> when it
  returns), the client and the world.
\<close>

definition wait_for_login ::
  "env \<Rightarrow> pylib \<Rightarrow> string \<Rightarrow> real \<Rightarrow> string option \<Rightarrow> client \<Rightarrow> world
     \<Rightarrow> py_exception option \<times> client \<times> world" where
  "wait_for_login env lib success_pattern timeout start_url c w =
     (case current_url env c w of
        (Inl e, w0) \<Rightarrow> (Some e, c, w0)
      | (Inr original_url, w0) \<Rightarrow>
          (case restart_browser env False c w0 of
             (Some e, c1, w1) \<Rightarrow> (Some e, c1, w1)
           | (None, c1, w1) \<Rightarrow>
               (case login_try env lib success_pattern timeout start_url original_url c1 w1 of
                  (raised, captured_cookies, c2, w2) \<Rightarrow>
                    (case restart_browser env True c2 w2 of
                       (Some e, c3, w3) \<Rightarrow> (Some e, c3, w3)
                     | (None, c3, w3) \<Rightarrow>
                         (raised, c3,
                          restore_cookies env lib start_url original_url captured_cookies
                            c3 w3)))))"

section \<open>Inputs for running the definitions\<close>

text \<open>
  An instance of the library parameter on which the definitions can be evaluated: the
  digest is the identity (so it never collides), a dict is written as the list of its keys.
\<close>

definition sample_lib :: pylib where
  "sample_lib =
     \<lparr> sha256_hexdigest = (\<lambda>raw. raw),
       json_dumps = (\<lambda>sort_keys v. case v of JDict d \<Rightarrow> concat (map fst d) | _ \<Rightarrow> ''null''),
       json_loads = (\<lambda>s. None),
       urlencode = (\<lambda>doseq d. concat (map fst d)),
       urljoin = (\<lambda>base rel. base @ rel),
       urlparse = (\<lambda>u. Some ('''', '''')),
       re_search = (\<lambda>p s. Some (p = s)),
       py_str = (\<lambda>v. '''') \<rparr>"

text \<open>The response of \<^verbatim>\<open>tests/test_cache.py\<close>.\<close>

definition test_data :: pydict where
  "test_data =
     [(''status'', JInt 200), (''statusText'', JStr ''OK''), (''url'', JStr ''http://example.com''),
      (''headers'', JDict [(''Content-Type'', JStr ''application/json'')]), (''text'', JStr ''{}''),
      (''redirected'', JBool False), (''type'', JStr ''basic'')]"

text \<open>
  A browser that starts, shows the dashboard at once and holds one cookie with an
  attribute outside the allowed set and \<open>expires = 0\<close>; a fetch answers the response above.
\<close>

definition sample_cookie :: pydict where
  "sample_cookie =
     [(''name'', JStr ''session''), (''value'', JStr ''abc''), (''domain'', JStr ''example.com''),
      (''expires'', JInt 0), (''sourceScheme'', JStr ''Secure'')]"

definition sample_env :: env where
  "sample_env =
     \<lparr> latency = (\<lambda>n. 0),
       new_page = (\<lambda>n options. None),
       page_get = (\<lambda>n u. None),
       page_url = (\<lambda>n. Inr ''https://example.com/dashboard''),
       page_user_agent = (\<lambda>n. Inr ''Mozilla/5.0''),
       page_cookies = (\<lambda>n. Inr [sample_cookie]),
       page_set_cookies = (\<lambda>n cs. None),
       page_refresh = (\<lambda>n. None),
       page_wait_load_start = (\<lambda>n. None),
       page_wait_doc_loaded = (\<lambda>n. None),
       page_run_cdp = (\<lambda>n script. Inr [(''result'', JDict [(''value'', JDict test_data)])]),
       sqlite = (\<lambda>n. Done) \<rparr>"

definition sample_client :: client where
  "sample_client =
     \<lparr> base_url = Some ''https://example.com'',
       profile_dir = ''./browser_data'',
       headless = True,
       auto_navigate_for_cors = False,
       cache = Map.empty,
       page = Some (ChromiumPage
                \<lparr> user_data_path = ''./browser_data'', opt_headless = True,
                  opt_user_agent = None \<rparr>),
       user_agent = None \<rparr>"

definition sample_world :: world where
  "sample_world = \<lparr> clock = 1000, tick = 0, calls = [] \<rparr>"

section \<open>Properties of the cache\<close>

lemma upper_char_idem: "upper_char (upper_char c) = upper_char c"
  by (auto simp: upper_char_def Let_def)

lemma upper_idem: "upper (upper s) = upper s"
  by (simp add: upper_def upper_char_idem)

lemma test_data_valid: "list_all (has_key test_data) REQUIRED_KEYS"
  by (simp add: test_data_def REQUIRED_KEYS_def has_key_def)

text \<open>
  C10. \<open>generate_key\<close> does not depend on the case of the method: the key of \<open>m\<close> is
  the key of \<open>m.upper()\<close>, for every url, params, data and json_data. An empty dict for
  params, data or json_data gives the same key as \<open>None\<close> for that argument.
\<close>

theorem generate_key_method_case_empty_dict:
  "generate_key lib (upper m) url params data json_data
     = generate_key lib m url params data json_data
   \<and> generate_key lib m url (Some []) data json_data
     = generate_key lib m url None data json_data
   \<and> generate_key lib m url params (Some []) json_data
     = generate_key lib m url params None json_data
   \<and> generate_key lib m url params data (Some [])
     = generate_key lib m url params data None"
  by (simp add: generate_key_def raw_key_def normalized_def upper_idem)

text \<open>With any digest and any serializer, \<open>get\<close> and \<open>GET\<close> give the same key.\<close>

lemma generate_key_get_GET:
  "generate_key lib ''get'' url params data json_data
     = generate_key lib ''GET'' url params data json_data"
  by (simp add: generate_key_def raw_key_def upper_def upper_char_def char_of_def bit_iff_odd)

text \<open>
  C2, as stated: changing the method alone always changes the fingerprint. It fails for
  two methods that differ in case only, here \<open>get\<close> and \<open>GET\<close>, even with a digest
  that never collides.
\<close>

theorem generate_key_method_counterexample:
  "''get'' \<noteq> ''GET''
   \<and> generate_key sample_lib ''get'' ''http://example.com'' None None None
     = generate_key sample_lib ''GET'' ''http://example.com'' None None None"
  by (simp add: generate_key_def raw_key_def normalized_def upper_def upper_char_def
      char_of_def bit_iff_odd)

text \<open>
  C2, amended. The key is a function of its arguments (two calls with the same arguments
  give the same key). Where SHA-256 does not collide on the two hashed strings: changing
  the url alone changes the key; changing the method alone changes the key exactly when
  the two methods differ after upper-casing; changing the form body alone, or the json
  body alone, changes the key exactly when the two bodies are normalised to different
  strings (\<open>None\<close> and the empty dict are both normalised to the empty string).
\<close>

theorem generate_key_deterministic_sensitive:
  "(m = m' \<and> u = u' \<and> d = d' \<and> j = j' \<longrightarrow>
      generate_key lib m u p d j = generate_key lib m' u' p d' j')
   \<and> (no_collision lib (raw_key lib m u p d j) (raw_key lib m' u p d j) \<longrightarrow>
        (generate_key lib m u p d j = generate_key lib m' u p d j \<longleftrightarrow> upper m = upper m'))
   \<and> (no_collision lib (raw_key lib m u p d j) (raw_key lib m u' p d j) \<longrightarrow>
        (generate_key lib m u p d j = generate_key lib m u' p d j \<longleftrightarrow> u = u'))
   \<and> (no_collision lib (raw_key lib m u p d j) (raw_key lib m u p d' j) \<longrightarrow>
        (generate_key lib m u p d j = generate_key lib m u p d' j
           \<longleftrightarrow> normalized lib d = normalized lib d'))
   \<and> (no_collision lib (raw_key lib m u p d j) (raw_key lib m u p d j') \<longrightarrow>
        (generate_key lib m u p d j = generate_key lib m u p d j'
           \<longleftrightarrow> normalized lib j = normalized lib j'))"
  by (auto simp: generate_key_def raw_key_def no_collision_def)

theorem generate_key_deterministic_sensitive_witness:
  "no_collision sample_lib
     (raw_key sample_lib ''GET'' ''http://a.example/x'' None (Some [(''q'', JInt 1)]) None)
     (raw_key sample_lib ''POST'' ''http://a.example/x'' None (Some [(''q'', JInt 1)]) None)
   \<and> no_collision sample_lib
     (raw_key sample_lib ''GET'' ''http://a.example/x'' None (Some [(''q'', JInt 1)]) None)
     (raw_key sample_lib ''GET'' ''http://a.example/y'' None (Some [(''q'', JInt 1)]) None)
   \<and> no_collision sample_lib
     (raw_key sample_lib ''GET'' ''http://a.example/x'' None (Some [(''q'', JInt 1)]) None)
     (raw_key sample_lib ''GET'' ''http://a.example/x'' None (Some [(''r'', JInt 1)]) None)
   \<and> no_collision sample_lib
     (raw_key sample_lib ''GET'' ''http://a.example/x'' None (Some [(''q'', JInt 1)]) None)
     (raw_key sample_lib ''GET'' ''http://a.example/x'' None (Some [(''q'', JInt 1)])
        (Some [(''s'', JNull)]))
   \<and> generate_key sample_lib ''GET'' ''http://a.example/x'' None (Some [(''q'', JInt 1)]) None
       \<noteq> generate_key sample_lib ''POST'' ''http://a.example/x'' None (Some [(''q'', JInt 1)]) None
   \<and> generate_key sample_lib ''GET'' ''http://a.example/x'' None (Some [(''q'', JInt 1)]) None
       \<noteq> generate_key sample_lib ''GET'' ''http://a.example/y'' None (Some [(''q'', JInt 1)]) None
   \<and> generate_key sample_lib ''GET'' ''http://a.example/x'' None (Some [(''q'', JInt 1)]) None
       \<noteq> generate_key sample_lib ''GET'' ''http://a.example/x'' None (Some [(''r'', JInt 1)]) None
   \<and> generate_key sample_lib ''GET'' ''http://a.example/x'' None (Some [(''q'', JInt 1)]) None
       \<noteq> generate_key sample_lib ''GET'' ''http://a.example/x'' None (Some [(''q'', JInt 1)])
            (Some [(''s'', JNull)])"
proof -
  have nc: "no_collision sample_lib a b" for a b
    by (simp add: no_collision_def sample_lib_def)
  have m: "upper ''GET'' \<noteq> upper ''POST''"
    by (simp add: upper_def)
  have d: "normalized sample_lib (Some [(''q'', JInt 1)]) \<noteq> normalized sample_lib (Some [(''r'', JInt 1)])"
    by (simp add: normalized_def sample_lib_def)
  have j: "normalized sample_lib None \<noteq> normalized sample_lib (Some [(''s'', JNull)])"
    by (simp add: normalized_def sample_lib_def)
  show ?thesis
    using generate_key_deterministic_sensitive
      [of "''GET''" "''POST''" "''http://a.example/x''" "''http://a.example/y''"
          "Some [(''q'', JInt 1)]" "Some [(''r'', JInt 1)]" None "Some [(''s'', JNull)]"
          sample_lib None]
      nc m d j
    by simp
qed

text \<open>
  C3. With a value that has the seven fields and that \<open>json.loads\<close> reads back from what
  \<open>json.dumps\<close> wrote, and with the \<open>INSERT\<close> and the \<open>SELECT\<close> carried out:
  \<open>set\<close> at time \<open>t0\<close> stores \<open>expires_at = t0 + ttl\<close> and \<open>get\<close> at time \<open>t1\<close>
  returns the value exactly when \<open>t1 < t0 + ttl\<close>. So after \<open>set(k, v, 60)\<close> a \<open>get(k)\<close>
  less than 60 seconds later returns \<open>v\<close>; after \<open>set(k, v, -1)\<close> a later \<open>get(k)\<close>
  returns \<open>None\<close>; after \<open>set(k, v, 0.5)\<close> a \<open>get(k)\<close> one second later returns \<open>None\<close>.
\<close>

theorem ttl_semantics:
  assumes "list_all (has_key v) REQUIRED_KEYS"
    and "json_loads lib (json_dumps lib False (JDict v)) = Some (JDict v)"
  shows
    "fst (cache_get lib t1 Done del (cache_set lib t0 Done tbl k v ttl) k)
       = (if t1 < t0 + ttl then Some v else None)
     \<and> (t0 \<le> t1 \<and> t1 < t0 + 60 \<longrightarrow>
          fst (cache_get lib t1 Done del (cache_set lib t0 Done tbl k v 60) k) = Some v)
     \<and> (t0 \<le> t1 \<longrightarrow>
          fst (cache_get lib t1 sel del (cache_set lib t0 Done tbl k v (- 1)) k) = None)
     \<and> (t0 + 1 \<le> t1 \<longrightarrow>
          fst (cache_get lib t1 sel del (cache_set lib t0 Done tbl k v 0.5) k) = None)"
  using assms
  by (simp add: cache_get_def cache_set_def validate_data_def split: sqlite_result.splits)

theorem ttl_semantics_witness:
  "list_all (has_key test_data) REQUIRED_KEYS
   \<and> json_loads (sample_lib\<lparr>json_loads := \<lambda>s. Some (JDict test_data)\<rparr>)
        (json_dumps (sample_lib\<lparr>json_loads := \<lambda>s. Some (JDict test_data)\<rparr>) False (JDict test_data))
       = Some (JDict test_data)
   \<and> fst (cache_get (sample_lib\<lparr>json_loads := \<lambda>s. Some (JDict test_data)\<rparr>) 1000 Done Done
        (cache_set (sample_lib\<lparr>json_loads := \<lambda>s. Some (JDict test_data)\<rparr>) 1000 Done
           Map.empty ''key'' test_data 60) ''key'') = Some test_data
   \<and> fst (cache_get (sample_lib\<lparr>json_loads := \<lambda>s. Some (JDict test_data)\<rparr>) 1000 Done Done
        (cache_set (sample_lib\<lparr>json_loads := \<lambda>s. Some (JDict test_data)\<rparr>) 1000 Done
           Map.empty ''key'' test_data (- 1)) ''key'') = None
   \<and> fst (cache_get (sample_lib\<lparr>json_loads := \<lambda>s. Some (JDict test_data)\<rparr>) 1001 Done Done
        (cache_set (sample_lib\<lparr>json_loads := \<lambda>s. Some (JDict test_data)\<rparr>) 1000 Done
           Map.empty ''key'' test_data 0.5) ''key'') = None"
proof -
  let ?lib = "sample_lib\<lparr>json_loads := \<lambda>s. Some (JDict test_data)\<rparr>"
  have rt: "json_loads ?lib (json_dumps ?lib False (JDict test_data)) = Some (JDict test_data)"
    by simp
  have a: "fst (cache_get ?lib 1000 Done Done
        (cache_set ?lib 1000 Done Map.empty ''key'' test_data 60) ''key'') = Some test_data"
    using ttl_semantics [OF test_data_valid rt, of 1000 Done 1000 Map.empty "''key''" 60 Done]
    by simp
  have b: "fst (cache_get ?lib 1000 Done Done
        (cache_set ?lib 1000 Done Map.empty ''key'' test_data (- 1)) ''key'') = None"
    using ttl_semantics [OF test_data_valid rt, of 1000 Done 1000 Map.empty "''key''" 60 Done]
    by simp
  have c: "fst (cache_get ?lib 1001 Done Done
        (cache_set ?lib 1000 Done Map.empty ''key'' test_data 0.5) ''key'') = None"
    using ttl_semantics [OF test_data_valid rt, of 1001 Done 1000 Map.empty "''key''" 60 Done]
    by simp
  show ?thesis
    using test_data_valid rt a b c by simp
qed

text \<open>
  C4. A row whose value, once loaded, is not a dict with all seven required keys is never
  returned by \<open>get\<close>: the result is \<open>None\<close>, whether or not the row has expired.
\<close>

theorem get_rejects_incomplete_value:
  assumes "tbl k = Some (value_json, expires_at)"
    and "json_loads lib value_json = Some data"
    and "\<And>d. data = JDict d \<Longrightarrow> \<exists>r \<in> set REQUIRED_KEYS. \<not> has_key d r"
  shows "fst (cache_get lib now sel del tbl k) = None"
proof (cases data)
  case (JDict d)
  with assms(3) have "\<not> list_all (has_key d) REQUIRED_KEYS"
    by (auto simp: list_all_iff)
  with assms(1,2) JDict show ?thesis
    by (simp add: cache_get_def validate_data_def split: sqlite_result.splits)
qed (use assms(1,2) in \<open>simp_all add: cache_get_def validate_data_def split: sqlite_result.splits\<close>)


theorem get_rejects_incomplete_value_witness:
  "(\<lambda>k. if k = ''key'' then Some (''row'', 2000::real) else None) ''key'' = Some (''row'', 2000)
   \<and> json_loads (sample_lib\<lparr>json_loads := \<lambda>s. Some (JDict (remove1 (''statusText'', JStr ''OK'') test_data))\<rparr>) ''row''
       = Some (JDict (remove1 (''statusText'', JStr ''OK'') test_data))
   \<and> ''statusText'' \<in> set REQUIRED_KEYS
   \<and> \<not> has_key (remove1 (''statusText'', JStr ''OK'') test_data) ''statusText''
   \<and> (1000::real) < 2000
   \<and> fst (cache_get (sample_lib\<lparr>json_loads := \<lambda>s. Some (JDict (remove1 (''statusText'', JStr ''OK'') test_data))\<rparr>)
        1000 Done Done (\<lambda>k. if k = ''key'' then Some (''row'', 2000) else None) ''key'') = None"
proof -
  let ?d = "remove1 (''statusText'', JStr ''OK'') test_data"
  let ?lib = "sample_lib\<lparr>json_loads := \<lambda>s. Some (JDict ?d)\<rparr>"
  let ?tbl = "\<lambda>k. if k = ''key'' then Some (''row'', 2000::real) else None"
  have row: "?tbl ''key'' = Some (''row'', 2000)"
    by simp
  have loads: "json_loads ?lib ''row'' = Some (JDict ?d)"
    by simp
  have req: "''statusText'' \<in> set REQUIRED_KEYS"
    by (simp add: REQUIRED_KEYS_def)
  have miss: "\<not> has_key ?d ''statusText''"
    by (simp add: test_data_def has_key_def)
  have "\<exists>r \<in> set REQUIRED_KEYS. \<not> has_key d r" if "JDict ?d = JDict d" for d
    using that req miss by auto
  from get_rejects_incomplete_value [of ?tbl "''key''" "''row''" 2000 ?lib "JDict ?d", OF row loads this]
  have "fst (cache_get ?lib 1000 Done Done ?tbl ''key'') = None" .
  with row loads req miss show ?thesis
    by simp
qed

text \<open>
  C9. When its \<open>DELETE\<close> is carried out, \<open>clear_expired\<close> removes a row exactly when its
  \<open>expires_at\<close> is strictly less than the current time and leaves every other row as it
  was; \<open>clear_all\<close> removes every row, and a \<open>get\<close> of any key then returns \<open>None\<close>.
\<close>

theorem clear_expired_clear_all:
  "(tbl k = Some (v, e) \<and> e < now \<longrightarrow> clear_expired now Done tbl k = None)
   \<and> (tbl k = Some (v, e) \<and> \<not> e < now \<longrightarrow> clear_expired now Done tbl k = Some (v, e))
   \<and> (tbl k = None \<longrightarrow> clear_expired now Done tbl k = None)
   \<and> clear_all Done tbl k = None
   \<and> cache_get lib now' sel del (clear_all Done tbl) k = (None, Map.empty)"
  by (simp add: clear_expired_def clear_all_def cache_get_def split: sqlite_result.splits)

theorem clear_expired_clear_all_witness:
  "[''old'' \<mapsto> (''a'', 999::real), ''new'' \<mapsto> (''b'', 1000)] ''old'' = Some (''a'', 999)
   \<and> (999::real) < 1000
   \<and> clear_expired 1000 Done [''old'' \<mapsto> (''a'', 999), ''new'' \<mapsto> (''b'', 1000)] ''old'' = None
   \<and> [''old'' \<mapsto> (''a'', 999::real), ''new'' \<mapsto> (''b'', 1000)] ''new'' = Some (''b'', 1000)
   \<and> \<not> (1000::real) < 1000
   \<and> clear_expired 1000 Done [''old'' \<mapsto> (''a'', 999), ''new'' \<mapsto> (''b'', 1000)] ''new''
       = Some (''b'', 1000)
   \<and> [''old'' \<mapsto> (''a'', 999::real), ''new'' \<mapsto> (''b'', 1000)] ''other'' = None
   \<and> clear_expired 1000 Done [''old'' \<mapsto> (''a'', 999), ''new'' \<mapsto> (''b'', 1000)] ''other'' = None
   \<and> cache_get sample_lib 1000 Done Done
        (clear_all Done [''old'' \<mapsto> (''a'', 999), ''new'' \<mapsto> (''b'', 1000)]) ''new''
       = (None, Map.empty)"
  using
    clear_expired_clear_all [of "[''old'' \<mapsto> (''a'', 999), ''new'' \<mapsto> (''b'', 1000)]" "''old''" "''a''" 999 1000 sample_lib 1000 Done Done]
    clear_expired_clear_all [of "[''old'' \<mapsto> (''a'', 999), ''new'' \<mapsto> (''b'', 1000)]" "''new''" "''b''" 1000 1000 sample_lib 1000 Done Done]
    clear_expired_clear_all [of "[''old'' \<mapsto> (''a'', 999), ''new'' \<mapsto> (''b'', 1000)]" "''other''" "''b''" 1000 1000 sample_lib 1000 Done Done]
  by simp

section \<open>Properties of the handoff\<close>

lemma init_browser_ok:
  assumes "init_browser env c w = (None, c', w')"
  shows "headless c' = headless c
     \<and> (\<exists>opts. page c' = Some (ChromiumPage opts) \<and> opt_headless opts = headless c)"
  using assms by (auto simp: init_browser_def Let_def split: option.splits)

lemma init_browser_headless: "headless (fst (snd (init_browser env c w))) = headless c"
  by (auto simp: init_browser_def Let_def split: option.splits)

lemma restart_browser_ok:
  assumes "restart_browser env hl c w = (None, c', w')"
  shows "headless c' = hl
     \<and> (\<exists>opts. page c' = Some (ChromiumPage opts) \<and> opt_headless opts = hl)"
  using assms init_browser_ok
  by (fastforce simp: restart_browser_def Let_def split: option.splits prod.splits)

lemma restart_browser_headless: "headless (fst (snd (restart_browser env hl c w))) = hl"
  by (auto simp: restart_browser_def Let_def init_browser_headless
      split: option.splits prod.splits)

text \<open>
  Once the GUI browser has been started, \<open>headless\<close> is set again at the end of
  \<open>wait_for_login\<close>, also when an exception leaves it.
\<close>

lemma wait_for_login_after_gui:
  assumes "current_url env c w = (Inr original_url, w0)"
    and "restart_browser env False c w0 = (None, c1, w1)"
  shows "headless (fst (snd (wait_for_login env lib success_pattern timeout start_url c w)))"
  using assms restart_browser_headless
  apply (auto simp: wait_for_login_def split: prod.splits sum.splits option.splits)
   apply (metis fst_conv snd_conv)+
  done

text \<open>The run of \<open>wait_for_login\<close> in the sample browser, from the sample client.\<close>

lemma sample_login_run:
  "wait_for_login sample_env sample_lib ''https://example.com/dashboard'' 300 None
     sample_client sample_world
   = (None,
      sample_client
        \<lparr> page := Some (ChromiumPage
                    \<lparr> user_data_path = ''./browser_data'', opt_headless = True,
                      opt_user_agent = Some ''Mozilla/5.0'' \<rparr>),
          user_agent := Some ''Mozilla/5.0'' \<rparr>,
      \<lparr> clock = 1007, tick = 14,
        calls =
          [Url, Quit,
           NewPage \<lparr> user_data_path = ''./browser_data'', opt_headless = False,
                     opt_user_agent = None \<rparr>,
           Get ''https://example.com/dashboard'', Url, UserAgent, Cookies, Quit,
           NewPage \<lparr> user_data_path = ''./browser_data'', opt_headless = True,
                     opt_user_agent = Some ''Mozilla/5.0'' \<rparr>,
           Get ''https://example.com'',
           SetCookies
             [[(''name'', JStr ''session''), (''value'', JStr ''abc''),
               (''domain'', JStr ''example.com'')]],
           Refresh, WaitLoadStart, WaitDocLoaded] \<rparr>)"
  by (simp add: wait_for_login_def current_url_def read_url_def restart_browser_def
      init_browser_def login_try_def do_get_def poll.simps poll_once_def read_user_agent_def
      read_cookies_def restore_cookies_def restore_target_def origin_of_def do_set_cookies_def
      do_refresh_def do_wait_load_start_def do_wait_doc_loaded_def sanitize_cookie_def
      le_zero_def dict_get_def allowed_keys_def called_def sleep_def sample_env_def
      sample_lib_def sample_client_def sample_world_def sample_cookie_def Let_def)

text \<open>
  C1. Whenever \<open>wait_for_login\<close> returns (no exception leaves it), whatever the browser
  answered while it ran (the pattern matched, the timeout passed, polling or the
  reading of the cookies raised), the client is in headless mode: its \<open>headless\<close> flag is
  set and its page is a browser started with the headless option.
\<close>

theorem wait_for_login_returns_headless:
  assumes "wait_for_login env lib success_pattern timeout start_url c w = (None, c', w')"
  shows "headless c' \<and> (\<exists>opts. page c' = Some (ChromiumPage opts) \<and> opt_headless opts)"
  using assms
  by (auto simp: wait_for_login_def split: prod.splits sum.splits option.splits
      dest: restart_browser_ok)

theorem wait_for_login_returns_headless_witness:
  "wait_for_login sample_env sample_lib ''https://example.com/dashboard'' 300 None
     sample_client sample_world
   = (None,
      fst (snd (wait_for_login sample_env sample_lib ''https://example.com/dashboard'' 300 None
                  sample_client sample_world)),
      snd (snd (wait_for_login sample_env sample_lib ''https://example.com/dashboard'' 300 None
                  sample_client sample_world)))
   \<and> headless (fst (snd (wait_for_login sample_env sample_lib ''https://example.com/dashboard''
                           300 None sample_client sample_world)))
   \<and> (\<exists>opts. page (fst (snd (wait_for_login sample_env sample_lib
                                ''https://example.com/dashboard'' 300 None sample_client
                                sample_world)))
               = Some (ChromiumPage opts) \<and> opt_headless opts)"
proof -
  let ?run = "wait_for_login sample_env sample_lib ''https://example.com/dashboard'' 300 None
                sample_client sample_world"
  have r: "?run = (None, fst (snd ?run), snd (snd ?run))"
    by (simp add: sample_login_run)
  from wait_for_login_returns_headless [OF r] r show ?thesis
    by blast
qed

section \<open>Properties of the cookie restore\<close>

lemma map_of_filter_keys:
  "map_of (filter (\<lambda>(k, v). P k) d) k = (if P k then map_of d k else None)"
  by (induction d) auto

lemma sanitize_cookie_map_of:
  assumes "sanitize_cookie c = Inr clean"
  shows "map_of clean k =
     (if k \<in> set allowed_keys
         \<and> \<not> (k = ''expires'' \<and> le_zero (dict_get c ''expires'' (JInt 0)) = Some True)
      then map_of c k else None)"
proof -
  have e: "''expires'' \<in> set allowed_keys"
    by (simp add: allowed_keys_def)
  have g: "dict_get (filter (\<lambda>(k, v). k \<in> set allowed_keys) c) ''expires'' (JInt 0)
      = dict_get c ''expires'' (JInt 0)"
    using e by (simp add: dict_get_def map_of_filter_keys)
  show ?thesis
    using assms unfolding sanitize_cookie_def Let_def g
    by (auto simp del: filter_filter simp add: map_of_filter_keys
        split: option.splits bool.splits)
qed

lemma sanitize_cookies_nth:
  assumes "sanitize_cookies cs = Inr out"
  shows "length out = length cs \<and> (\<forall>i<length cs. sanitize_cookie (cs ! i) = Inr (out ! i))"
  using assms
proof (induction cs arbitrary: out)
  case Nil
  then show ?case by simp
next
  case (Cons c cs)
  then obtain cc rest where cc: "sanitize_cookie c = Inr cc"
    and rest: "sanitize_cookies cs = Inr rest" and out: "out = cc # rest"
    by (auto split: sum.splits)
  from Cons.IH [OF rest] cc out show ?case
    by (auto simp: nth_Cons split: nat.splits)
qed

lemma calls_called: "calls (called env b w) = calls w @ [b]"
  by (simp add: called_def)

lemma calls_sleep: "calls (sleep d w) = calls w"
  by (simp add: sleep_def)

lemma poll_once_calls:
  "(case poll_once env lib pat timeout st c w of
      Break cap c' w' \<Rightarrow>
        (SetCookies x \<in> set (calls w') \<longrightarrow> SetCookies x \<in> set (calls w))
        \<and> (\<forall>cookies. cap = Some cookies \<longrightarrow> (\<exists>n. page_cookies env n = Inr cookies))
    | Continue c' w' \<Rightarrow>
        (SetCookies x \<in> set (calls w') \<longrightarrow> SetCookies x \<in> set (calls w)))"
  by (auto simp: poll_once_def read_url_def read_user_agent_def read_cookies_def calls_called
      calls_sleep
      split: if_splits prod.splits sum.splits option.splits bool.splits)

lemma poll_calls:
  assumes "poll env lib pat timeout st c w = (cap, c', w')"
  shows "(SetCookies x \<in> set (calls w') \<longrightarrow> SetCookies x \<in> set (calls w))
     \<and> (\<forall>cookies. cap = Some cookies \<longrightarrow> (\<exists>n. page_cookies env n = Inr cookies))"
  using assms
proof (induction env lib pat timeout st c w rule: poll.induct)
  case (1 env lib pat timeout st c w)
  note once = poll_once_calls [where env = env and lib = lib and pat = pat
      and timeout = timeout and st = st and c = c and w = w and x = x]
  show ?case
  proof (cases "poll_once env lib pat timeout st c w")
    case (Break cap0 c0 w0)
    with "1.prems" have "cap0 = cap" "c0 = c'" "w0 = w'"
      by (simp_all add: poll.simps)
    with once Break show ?thesis
      by simp
  next
    case (Continue c0 w0)
    with "1.prems" have "poll env lib pat timeout st c0 w0 = (cap, c', w')"
      by (simp add: poll.simps)
    from "1.IH" [OF Continue this] once Continue show ?thesis
      by simp
  qed
qed

lemma restart_browser_calls:
  assumes "restart_browser env hl c w = (r, c', w')"
  shows "SetCookies x \<in> set (calls w') \<longrightarrow> SetCookies x \<in> set (calls w)"
  using assms
  by (auto simp: restart_browser_def init_browser_def Let_def calls_called calls_sleep
      split: option.splits prod.splits)

lemma current_url_calls:
  assumes "current_url env c w = (r, w')"
  shows "SetCookies x \<in> set (calls w') \<longrightarrow> SetCookies x \<in> set (calls w)"
  using assms
  by (auto simp: current_url_def read_url_def calls_called split: option.splits)

lemma login_try_calls:
  assumes "login_try env lib pat timeout start_url original_url c w = (r, cap, c', w')"
  shows "(SetCookies x \<in> set (calls w') \<longrightarrow> SetCookies x \<in> set (calls w))
     \<and> (\<forall>cookies. cap = Some cookies \<longrightarrow> (\<exists>n. page_cookies env n = Inr cookies))"
  using assms
  by (auto simp: login_try_def Let_def do_get_def calls_called
      split: if_splits option.splits prod.splits dest!: poll_calls [where x = x])

lemma restore_cookies_calls:
  assumes "SetCookies x \<in> set (calls (restore_cookies env lib start_url original_url cap c w))"
  shows "SetCookies x \<in> set (calls w)
     \<or> (\<exists>cookies. cap = Some cookies \<and> sanitize_cookies cookies = Inr x)"
  using assms
  by (auto simp: restore_cookies_def do_get_def do_set_cookies_def do_refresh_def
      do_wait_load_start_def do_wait_doc_loaded_def calls_called
      split: if_splits option.splits prod.splits sum.splits)

text \<open>
  C6. Every list of cookies that \<open>wait_for_login\<close> hands to \<^verbatim>\<open>page.set.cookies\<close> is a
  list that \<^verbatim>\<open>page.cookies\<close> returned, cookie by cookie, where each restored cookie
  holds exactly the attributes of the captured one that are in the allowed set, except
  that \<open>expires\<close> is left out when the captured value is \<open>\<le> 0\<close>: an attribute outside the
  allowed set is never restored, and a non-positive \<open>expires\<close> is removed, not restored.
\<close>

theorem restored_cookies_sanitized:
  assumes "wait_for_login env lib success_pattern timeout start_url c w = (r, c', w')"
    and "SetCookies restored \<in> set (calls w')"
    and "SetCookies restored \<notin> set (calls w)"
  shows "\<exists>captured. (\<exists>n. page_cookies env n = Inr captured)
           \<and> length restored = length captured
           \<and> (\<forall>i<length captured. \<forall>k.
                 map_of (restored ! i) k =
                   (if k \<in> set allowed_keys
                       \<and> \<not> (k = ''expires''
                             \<and> le_zero (dict_get (captured ! i) ''expires'' (JInt 0))
                                 = Some True)
                    then map_of (captured ! i) k else None))"
proof -
  have "\<exists>captured. (\<exists>n. page_cookies env n = Inr captured)
          \<and> sanitize_cookies captured = Inr restored"
    using assms
    by (auto simp: wait_for_login_def split: prod.splits sum.splits option.splits
        dest!: restore_cookies_calls current_url_calls [where x = restored]
          restart_browser_calls [where x = restored] login_try_calls [where x = restored])
  then obtain captured where n: "\<exists>n. page_cookies env n = Inr captured"
    and s: "sanitize_cookies captured = Inr restored"
    by blast
  from sanitize_cookies_nth [OF s] sanitize_cookie_map_of n show ?thesis
    by (intro exI [of _ captured]) simp
qed

theorem restored_cookies_sanitized_witness:
  "wait_for_login sample_env sample_lib ''https://example.com/dashboard'' 300 None
     sample_client sample_world
   = (None,
      fst (snd (wait_for_login sample_env sample_lib ''https://example.com/dashboard'' 300 None
                  sample_client sample_world)),
      snd (snd (wait_for_login sample_env sample_lib ''https://example.com/dashboard'' 300 None
                  sample_client sample_world)))
   \<and> SetCookies [[(''name'', JStr ''session''), (''value'', JStr ''abc''),
                   (''domain'', JStr ''example.com'')]]
       \<in> set (calls (snd (snd (wait_for_login sample_env sample_lib
                                  ''https://example.com/dashboard'' 300 None sample_client
                                  sample_world))))
   \<and> SetCookies [[(''name'', JStr ''session''), (''value'', JStr ''abc''),
                   (''domain'', JStr ''example.com'')]]
       \<notin> set (calls sample_world)
   \<and> (\<exists>captured. (\<exists>n. page_cookies sample_env n = Inr captured)
         \<and> length [[(''name'', JStr ''session''), (''value'', JStr ''abc''),
                     (''domain'', JStr ''example.com'')]] = length captured
         \<and> (\<forall>i<length captured. \<forall>k.
               map_of ([[(''name'', JStr ''session''), (''value'', JStr ''abc''),
                         (''domain'', JStr ''example.com'')]] ! i) k =
                 (if k \<in> set allowed_keys
                     \<and> \<not> (k = ''expires''
                           \<and> le_zero (dict_get (captured ! i) ''expires'' (JInt 0))
                               = Some True)
                  then map_of (captured ! i) k else None)))"
proof -
  let ?run = "wait_for_login sample_env sample_lib ''https://example.com/dashboard'' 300 None
                sample_client sample_world"
  let ?restored = "[[(''name'', JStr ''session''), (''value'', JStr ''abc''),
                     (''domain'', JStr ''example.com'')]]"
  have r: "?run = (None, fst (snd ?run), snd (snd ?run))"
    by (simp add: sample_login_run)
  have a: "SetCookies ?restored \<in> set (calls (snd (snd ?run)))"
    by (simp add: sample_login_run)
  have b: "SetCookies ?restored \<notin> set (calls sample_world)"
    by (simp add: sample_world_def)
  from restored_cookies_sanitized [OF r a b] r a b show ?thesis
    by blast
qed

section \<open>Properties of the request pipeline\<close>

text \<open>
  C7, amended. When \<^verbatim>\<open>run_cdp\<close> has returned \<open>cdp_res\<close>, \<open>_exec_fetch\<close> raises
  \<^verbatim>\<open>RuntimeError\<close> when the session reports a script error (\<^verbatim>\<open>exceptionDetails\<close>),
  \<^verbatim>\<open>RuntimeError\<close> when the fetch failed with a message without \<^verbatim>\<open>AbortError\<close>,
  \<^verbatim>\<open>TimeoutError\<close> when the message contains \<^verbatim>\<open>AbortError\<close>, and \<^verbatim>\<open>RuntimeError\<close> with
  the message of \<open>structure_error\<close> when the value lacks a required field. A structural
  mismatch is thus of another class than a timeout, and of the same class as an
  execution failure, from which only its message tells it apart.
\<close>

theorem fetch_error_classes:
  assumes "do_run_cdp env c
             (FetchScript (json_dumps lib False (JStr url)) (json_dumps lib False (JDict options))
                (timeout_ms_of timeout)) w = (Inr cdp_res, w1)"
  shows "(has_key cdp_res ''exceptionDetails'' \<longrightarrow>
            raised_class (fst (exec_fetch env lib c url options timeout w)) = Some RuntimeError)
     \<and> (\<not> has_key cdp_res ''exceptionDetails''
          \<and> dict_get cdp_res ''result'' (JDict []) = JDict res
          \<and> dict_get res ''value'' JNull = JDict result_value \<longrightarrow>
          (has_key result_value ''error'' \<and> dict_get result_value ''error'' JNull = JStr msg
             \<and> contains ''AbortError'' msg \<longrightarrow>
             raised_class (fst (exec_fetch env lib c url options timeout w)) = Some TimeoutError)
        \<and> (has_key result_value ''error'' \<and> dict_get result_value ''error'' JNull = JStr msg
             \<and> \<not> contains ''AbortError'' msg \<longrightarrow>
             raised_class (fst (exec_fetch env lib c url options timeout w)) = Some RuntimeError)
        \<and> (\<not> has_key result_value ''error''
             \<and> (\<exists>k \<in> set REQUIRED_KEYS. \<not> has_key result_value k) \<longrightarrow>
             fst (exec_fetch env lib c url options timeout w)
               = Inl (structure_error lib result_value)
             \<and> raised_class (fst (exec_fetch env lib c url options timeout w))
               = Some RuntimeError))
     \<and> RuntimeError \<noteq> TimeoutError"
  using assms
  by (auto simp: exec_fetch_def Let_def read_cdp_result_def raised_class_def py_in_def
      validate_fetch_response_def structure_error_def REQUIRED_KEYS_def list_all_iff)

lemmas fetch_eval = exec_fetch_def do_run_cdp_def read_cdp_result_def raised_class_def
  has_key_def dict_get_def py_in_def validate_fetch_response_def structure_error_def
  startswith_def sample_client_def sample_world_def sample_env_def Let_def

text \<open>
  C7, as stated: a structural mismatch and a script error are told apart by the kind of
  the error. Both are raised as \<^verbatim>\<open>RuntimeError\<close>: here for a value that has only the
  field \<open>status\<close>, and for a session that reports \<^verbatim>\<open>exceptionDetails\<close>.
\<close>

theorem structural_mismatch_counterexample:
  "raised_class (fst (exec_fetch
      (sample_env\<lparr> page_run_cdp :=
         \<lambda>n script. Inr [(''result'', JDict [(''value'', JDict [(''status'', JInt 200)])])] \<rparr>)
      sample_lib sample_client ''https://example.com/api'' [] 30 sample_world))
     = Some RuntimeError
   \<and> raised_class (fst (exec_fetch
      (sample_env\<lparr> page_run_cdp := \<lambda>n script. Inr [(''exceptionDetails'', JDict [])] \<rparr>)
      sample_lib sample_client ''https://example.com/api'' [] 30 sample_world))
     = Some RuntimeError"
  by (simp add: fetch_eval)

theorem fetch_error_classes_witness:
  "has_key [(''exceptionDetails'', JDict [])] ''exceptionDetails''
   \<and> raised_class (fst (exec_fetch
        (sample_env\<lparr> page_run_cdp := \<lambda>n script. Inr [(''exceptionDetails'', JDict [])] \<rparr>)
        sample_lib sample_client ''https://example.com/api'' [] 30 sample_world))
       = Some RuntimeError
   \<and> contains ''AbortError'' ''AbortError: aborted''
   \<and> raised_class (fst (exec_fetch
        (sample_env\<lparr> page_run_cdp := \<lambda>n script.
           Inr [(''result'', JDict [(''value'',
                  JDict [(''error'', JStr ''AbortError: aborted'')])])] \<rparr>)
        sample_lib sample_client ''https://example.com/api'' [] 30 sample_world))
       = Some TimeoutError
   \<and> \<not> contains ''AbortError'' ''TypeError: Failed to fetch''
   \<and> raised_class (fst (exec_fetch
        (sample_env\<lparr> page_run_cdp := \<lambda>n script.
           Inr [(''result'', JDict [(''value'',
                  JDict [(''error'', JStr ''TypeError: Failed to fetch'')])])] \<rparr>)
        sample_lib sample_client ''https://example.com/api'' [] 30 sample_world))
       = Some RuntimeError
   \<and> ''statusText'' \<in> set REQUIRED_KEYS
   \<and> \<not> has_key [(''status'', JInt 200)] ''statusText''
   \<and> raised_class (fst (exec_fetch
        (sample_env\<lparr> page_run_cdp := \<lambda>n script.
           Inr [(''result'', JDict [(''value'', JDict [(''status'', JInt 200)])])] \<rparr>)
        sample_lib sample_client ''https://example.com/api'' [] 30 sample_world))
       = Some RuntimeError"
proof -
  let ?script = "FetchScript (json_dumps sample_lib False (JStr ''https://example.com/api''))
                   (json_dumps sample_lib False (JDict [])) (timeout_ms_of 30)"
  let ?w1 = "called sample_env (RunCdp ?script) sample_world"
  let ?abort = "''AbortError: aborted''"
  let ?failed = "''TypeError: Failed to fetch''"
  have run: "do_run_cdp (sample_env\<lparr> page_run_cdp := \<lambda>n script. Inr res \<rparr>) sample_client
               ?script sample_world
             = (Inr res, called (sample_env\<lparr> page_run_cdp := \<lambda>n script. Inr res \<rparr>)
                           (RunCdp ?script) sample_world)" for res
    by (simp add: do_run_cdp_def sample_client_def)
  have c1: "contains ''AbortError'' ?abort"
    by (simp add: startswith_def)
  have c2: "\<not> contains ''AbortError'' ?failed"
    by (simp add: startswith_def)
  have k1: "''statusText'' \<in> set REQUIRED_KEYS"
    by (simp add: REQUIRED_KEYS_def)
  have k2: "\<not> has_key [(''status'', JInt 200)] ''statusText''"
    by (simp add: has_key_def)
  have e: "has_key [(''exceptionDetails'', JDict [])] ''exceptionDetails''"
    by (simp add: has_key_def)
  have g1: "\<not> has_key [(''result'', v)] ''exceptionDetails''" for v
    by (simp add: has_key_def)
  have g2: "dict_get [(''result'', JDict v)] ''result'' (JDict []) = JDict v" for v
    by (simp add: dict_get_def)
  have g3: "dict_get [(''value'', JDict v)] ''value'' JNull = JDict v" for v
    by (simp add: dict_get_def)
  have g4: "has_key [(''error'', v)] ''error'' \<and> dict_get [(''error'', v)] ''error'' JNull = v"
    for v
    by (simp add: has_key_def dict_get_def)
  have g5: "\<not> has_key [(''status'', JInt 200)] ''error''"
    by (simp add: has_key_def)
  note a = fetch_error_classes [OF run [of "[(''exceptionDetails'', JDict [])]"],
      of "[]" "[]" "''''"]
  note b = fetch_error_classes [OF run [of "[(''result'', JDict [(''value'',
                  JDict [(''error'', JStr ?abort)])])]"],
      of "[(''value'', JDict [(''error'', JStr ?abort)])]" "[(''error'', JStr ?abort)]" ?abort]
  note c = fetch_error_classes [OF run [of "[(''result'', JDict [(''value'',
                  JDict [(''error'', JStr ?failed)])])]"],
      of "[(''value'', JDict [(''error'', JStr ?failed)])]" "[(''error'', JStr ?failed)]" ?failed]
  note d = fetch_error_classes [OF run [of "[(''result'', JDict [(''value'',
                  JDict [(''status'', JInt 200)])])]"],
      of "[(''value'', JDict [(''status'', JInt 200)])]" "[(''status'', JInt 200)]" "''''"]
  have r1: "raised_class (fst (exec_fetch
        (sample_env\<lparr> page_run_cdp := \<lambda>n script. Inr [(''exceptionDetails'', JDict [])] \<rparr>)
        sample_lib sample_client ''https://example.com/api'' [] 30 sample_world))
       = Some RuntimeError"
    using a e by blast
  have r2: "raised_class (fst (exec_fetch
        (sample_env\<lparr> page_run_cdp := \<lambda>n script.
           Inr [(''result'', JDict [(''value'', JDict [(''error'', JStr ?abort)])])] \<rparr>)
        sample_lib sample_client ''https://example.com/api'' [] 30 sample_world))
       = Some TimeoutError"
    using b c1 g1 g2 g3 g4 [of "JStr ?abort"] by blast
  have r3: "raised_class (fst (exec_fetch
        (sample_env\<lparr> page_run_cdp := \<lambda>n script.
           Inr [(''result'', JDict [(''value'', JDict [(''error'', JStr ?failed)])])] \<rparr>)
        sample_lib sample_client ''https://example.com/api'' [] 30 sample_world))
       = Some RuntimeError"
    using c c2 g1 g2 g3 g4 [of "JStr ?failed"] by blast
  have r4: "raised_class (fst (exec_fetch
        (sample_env\<lparr> page_run_cdp := \<lambda>n script.
           Inr [(''result'', JDict [(''value'', JDict [(''status'', JInt 200)])])] \<rparr>)
        sample_lib sample_client ''https://example.com/api'' [] 30 sample_world))
       = Some RuntimeError"
  proof -
    have ex: "\<exists>k \<in> set REQUIRED_KEYS. \<not> has_key [(''status'', JInt 200)] k"
      using k1 k2 by blast
    from d ex g5 g1 [of "JDict [(''value'', JDict [(''status'', JInt 200)])]"]
      g2 [of "[(''value'', JDict [(''status'', JInt 200)])]"]
      g3 [of "[(''status'', JInt 200)]"]
    show ?thesis
      by (simp add: raised_class_def structure_error_def)
  qed
  from e r1 c1 r2 c2 r3 k1 k2 r4 show ?thesis
    by blast
qed

lemma ensure_cors_context_calls:
  "RunCdp s \<in> set (calls (ensure_cors_context env lib c url w)) \<longrightarrow> RunCdp s \<in> set (calls w)"
  by (auto simp: ensure_cors_context_def current_url_def read_url_def do_get_def Let_def
      calls_called
      split: option.splits prod.splits sum.splits if_splits)

lemma valid_nonempty: "list_all (has_key d) REQUIRED_KEYS \<Longrightarrow> d \<noteq> []"
  by (auto simp: REQUIRED_KEYS_def has_key_def)

text \<open>
  C5. With a \<open>cache_ttl\<close>, \<open>request\<close> looks the cache up under the key
  \<open>generate_key(method, url, None, data, json_data)\<close>: \<open>url\<close> is the resolved endpoint,
  followed, when \<open>params\<close> is not empty, by \<open>?\<close> (or \<open>&\<close> when the resolved url
  already has a \<open>?\<close>) and the url-encoded \<open>params\<close>; the params argument of the key
  is \<open>None\<close>. When the row under that key is there, has not expired and holds all
  seven fields (and the \<open>SELECT\<close> is carried out), \<open>request\<close> returns \<open>Response\<close> of
  the stored record, leaves the client as it was, and makes no \<^verbatim>\<open>run_cdp\<close> call: the
  browser is asked at most for its url and for the navigation of
  \<open>_ensure_cors_context\<close>. When no row is under that key, \<open>request\<close> goes on to fetch,
  whatever other rows the table holds.
\<close>

theorem cache_hit_skips_fetch:
  assumes "resolved = resolve_url lib c endpoint"
    and "url = (case params of
                  None \<Rightarrow> resolved
                | Some p \<Rightarrow>
                    if p = [] then resolved
                    else resolved @ (if contains ''?'' resolved then ''&'' else ''?'')
                           @ urlencode lib False p)"
    and "w1 = ensure_cors_context env lib c url w"
    and "key = generate_key lib method url None data json_data"
  shows "(cache c key = Some (value_json, expires_at) \<and> sqlite env (tick w1) = Done
            \<and> clock w1 < expires_at \<and> json_loads lib value_json = Some (JDict d)
            \<and> list_all (has_key d) REQUIRED_KEYS \<longrightarrow>
          request env lib method endpoint params data json_data headers timeout (Some t) c w
            = (Response d, c, w1\<lparr> tick := tick w1 + 2 \<rparr>)
          \<and> (\<forall>script. RunCdp script \<in> set (calls (w1\<lparr> tick := tick w1 + 2 \<rparr>))
                \<longrightarrow> RunCdp script \<in> set (calls w))
          \<and> (\<forall>h. dict_get d ''headers'' (JDict []) = JDict h \<longrightarrow>
                (\<exists>resp. Response d = Inr resp \<and> raw_data resp = d)))
     \<and> (cache c key = None \<longrightarrow>
          request env lib method endpoint params data json_data headers timeout (Some t) c w
            = fetch_and_store env lib method url data json_data headers timeout (Some t) key c
                (w1\<lparr> tick := tick w1 + 2 \<rparr>))"
proof -
  have u: "url = full_url lib c endpoint params"
    using assms(1,2) by (auto simp: full_url_def Let_def truthy_def split: option.splits)
  have hit: "request env lib method endpoint params data json_data headers timeout (Some t) c w
            = (Response d, c, w1\<lparr> tick := tick w1 + 2 \<rparr>)"
    if "cache c key = Some (value_json, expires_at)" "sqlite env (tick w1) = Done"
      "clock w1 < expires_at" "json_loads lib value_json = Some (JDict d)"
      "list_all (has_key d) REQUIRED_KEYS"
    using that u assms(3,4) valid_nonempty [OF that(5)]
    by (simp add: request_def Let_def client_cache_get_def cache_get_def validate_data_def
        truthy_def)
  have log: "RunCdp script \<in> set (calls (w1\<lparr> tick := tick w1 + 2 \<rparr>))
                \<longrightarrow> RunCdp script \<in> set (calls w)" for script
    using ensure_cors_context_calls [of script env lib c url w] assms(3) by simp
  have resp: "\<exists>resp. Response d = Inr resp \<and> raw_data resp = d"
    if "dict_get d ''headers'' (JDict []) = JDict h" for h
    using that by (simp add: Response_def)
  have miss: "request env lib method endpoint params data json_data headers timeout (Some t) c w
            = fetch_and_store env lib method url data json_data headers timeout (Some t) key c
                (w1\<lparr> tick := tick w1 + 2 \<rparr>)"
    if "cache c key = None"
    using that u assms(3,4)
    by (simp add: request_def Let_def client_cache_get_def cache_get_def truthy_def
        split: sqlite_result.splits)
  from hit log resp miss show ?thesis
    by blast
qed


theorem cache_hit_skips_fetch_witness:
  "resolve_url (sample_lib\<lparr> json_loads := \<lambda>s. Some (JDict test_data) \<rparr>)
     (sample_client\<lparr> cache := [''GET|https://example.com/api?q|||'' \<mapsto> (''row'', 2000)] \<rparr>)
     ''/api'' = ''https://example.com/api''
   \<and> generate_key (sample_lib\<lparr> json_loads := \<lambda>s. Some (JDict test_data) \<rparr>) ''GET''
        ''https://example.com/api?q'' None None None = ''GET|https://example.com/api?q|||''
   \<and> generate_key (sample_lib\<lparr> json_loads := \<lambda>s. Some (JDict test_data) \<rparr>) ''GET''
        ''https://example.com/api'' (Some [(''q'', JInt 1)]) None None
       = ''GET|https://example.com/api|q||''
   \<and> sqlite sample_env (tick sample_world) = Done
   \<and> clock sample_world < 2000
   \<and> json_loads (sample_lib\<lparr> json_loads := \<lambda>s. Some (JDict test_data) \<rparr>) ''row''
       = Some (JDict test_data)
   \<and> list_all (has_key test_data) REQUIRED_KEYS
   \<and> request sample_env (sample_lib\<lparr> json_loads := \<lambda>s. Some (JDict test_data) \<rparr>) ''GET''
        ''/api'' (Some [(''q'', JInt 1)]) None None None 30 (Some (Seconds 60))
        (sample_client\<lparr> cache := [''GET|https://example.com/api?q|||'' \<mapsto> (''row'', 2000)] \<rparr>)
        sample_world
       = (Response test_data,
          sample_client\<lparr> cache := [''GET|https://example.com/api?q|||'' \<mapsto> (''row'', 2000)] \<rparr>,
          sample_world\<lparr> tick := 2 \<rparr>)
   \<and> (\<forall>script. RunCdp script \<notin> set (calls (sample_world\<lparr> tick := 2 \<rparr>)))
   \<and> request sample_env (sample_lib\<lparr> json_loads := \<lambda>s. Some (JDict test_data) \<rparr>) ''GET''
        ''/api'' (Some [(''q'', JInt 1)]) None None None 30 (Some (Seconds 60))
        (sample_client\<lparr> cache := [''GET|https://example.com/api|q||'' \<mapsto> (''row'', 2000)] \<rparr>)
        sample_world
       = fetch_and_store sample_env (sample_lib\<lparr> json_loads := \<lambda>s. Some (JDict test_data) \<rparr>)
           ''GET'' ''https://example.com/api?q'' None None None 30 (Some (Seconds 60))
           ''GET|https://example.com/api?q|||''
           (sample_client\<lparr> cache := [''GET|https://example.com/api|q||'' \<mapsto> (''row'', 2000)] \<rparr>)
           (sample_world\<lparr> tick := 2 \<rparr>)"
proof -
  let ?lib = "sample_lib\<lparr> json_loads := \<lambda>s. Some (JDict test_data) \<rparr>"
  let ?key = "''GET|https://example.com/api?q|||''"
  let ?sep = "''GET|https://example.com/api|q||''"
  let ?url = "''https://example.com/api?q''"
  let ?params = "Some [(''q'', JInt 1)]"
  let ?hit = "sample_client\<lparr> cache := [?key \<mapsto> (''row'', 2000)] \<rparr>"
  let ?other = "sample_client\<lparr> cache := [?sep \<mapsto> (''row'', 2000)] \<rparr>"
  have r: "resolve_url ?lib (sample_client\<lparr> cache := tbl \<rparr>) ''/api'' = ''https://example.com/api''"
    for tbl
    by (simp add: resolve_url_def startswith_def lstrip_slash_def sample_client_def
        sample_lib_def)
  have u: "?url = (case ?params of
                  None \<Rightarrow> ''https://example.com/api''
                | Some p \<Rightarrow>
                    if p = [] then ''https://example.com/api''
                    else ''https://example.com/api''
                           @ (if contains ''?'' ''https://example.com/api'' then ''&'' else ''?'')
                           @ urlencode ?lib False p)"
    by (simp add: startswith_def sample_lib_def)
  have w1: "sample_world = ensure_cors_context sample_env ?lib (sample_client\<lparr> cache := tbl \<rparr>)
                             ?url sample_world" for tbl
    by (simp add: ensure_cors_context_def sample_client_def)
  have k: "generate_key ?lib ''GET'' ?url None None None = ?key"
    by (simp add: generate_key_def raw_key_def normalized_def upper_def upper_char_def
        sample_lib_def)
  have s: "generate_key ?lib ''GET'' ''https://example.com/api'' ?params None None = ?sep"
    by (simp add: generate_key_def raw_key_def normalized_def upper_def upper_char_def
        sample_lib_def)
  have row: "cache ?hit ?key = Some (''row'', 2000)"
    by simp
  have norow: "cache ?other ?key = None"
    by simp
  have db: "sqlite sample_env (tick sample_world) = Done"
    by (simp add: sample_env_def)
  have t: "clock sample_world < 2000"
    by (simp add: sample_world_def)
  have l: "json_loads ?lib ''row'' = Some (JDict test_data)"
    by simp
  have tk: "sample_world\<lparr> tick := tick sample_world + 2 \<rparr> = sample_world\<lparr> tick := 2 \<rparr>"
    by (simp add: sample_world_def)
  have cl: "calls sample_world = []"
    by (simp add: sample_world_def)
  note a = cache_hit_skips_fetch [where headers = None and timeout = 30 and t = "Seconds 60"
      and value_json = "''row''" and expires_at = 2000 and d = test_data,
      OF r [symmetric] u w1 k [symmetric]]
  have h: "request sample_env ?lib ''GET'' ''/api'' ?params None None None 30 (Some (Seconds 60))
             ?hit sample_world
           = (Response test_data, ?hit, sample_world\<lparr> tick := 2 \<rparr>)"
    using a [of "[?key \<mapsto> (''row'', 2000)]"] row db t l test_data_valid
    unfolding tk by blast
  have m: "request sample_env ?lib ''GET'' ''/api'' ?params None None None 30 (Some (Seconds 60))
             ?other sample_world
           = fetch_and_store sample_env ?lib ''GET'' ?url None None None 30 (Some (Seconds 60))
               ?key ?other (sample_world\<lparr> tick := 2 \<rparr>)"
    using a [of "[?sep \<mapsto> (''row'', 2000)]"] norow
    unfolding tk by blast
  from r [of "[?key \<mapsto> (''row'', 2000)]"] k s db t l test_data_valid h cl m show ?thesis
    by simp
qed

lemma ok_int: "status_code resp = JInt n \<Longrightarrow> ok resp \<longleftrightarrow> 200 \<le> n \<and> n \<le> 299"
  by (auto simp: ok_def)

text \<open>
  C8. After a lookup that returned \<open>None\<close>, \<open>request\<close> fetches. When the fetch returns a
  response, the response is returned and the cache is written exactly when the response
  is \<open>ok\<close>, which for an integer status means \<open>200 \<le> status \<le> 299\<close>: the row is the
  fetched record under the computed key with \<open>expires_at\<close> the time of the write plus
  \<open>ttl_seconds\<close>; otherwise the client is as the lookup left it. When the fetch raises,
  nothing is written. Without \<open>cache_ttl\<close> the cache is never written. \<open>ttl_seconds\<close> is
  the number itself for a number of seconds and \<open>total_seconds()\<close> for a \<open>timedelta\<close>.
\<close>

theorem store_after_miss:
  assumes "url = full_url lib c endpoint params"
    and "w1 = ensure_cors_context env lib c url w"
    and "key = generate_key lib method url None data json_data"
    and "client_cache_get env lib key c w1 = (None, c2, w2)"
    and "exec_fetch env lib c2 url (fetch_options lib method headers data json_data) timeout w2
           = (outcome, w3)"
  shows "(\<forall>resp. outcome = Inr resp \<longrightarrow>
            request env lib method endpoint params data json_data headers timeout (Some t) c w
              = (Inr resp,
                 (if ok resp
                  then c2\<lparr> cache := cache_set lib (clock w3) (sqlite env (tick w3)) (cache c2) key
                                     (raw_data resp) (ttl_seconds t) \<rparr>
                  else c2),
                 (if ok resp then w3\<lparr> tick := Suc (tick w3) \<rparr> else w3))
            \<and> (ok resp \<and> sqlite env (tick w3) = Done \<longrightarrow>
                 cache (fst (snd (request env lib method endpoint params data json_data headers
                                    timeout (Some t) c w))) key
                   = Some (json_dumps lib False (JDict (raw_data resp)),
                           clock w3 + ttl_seconds t))
            \<and> (\<forall>n. status_code resp = JInt n \<longrightarrow> (ok resp \<longleftrightarrow> 200 \<le> n \<and> n \<le> 299)))
     \<and> (\<forall>e. outcome = Inl e \<longrightarrow>
            request env lib method endpoint params data json_data headers timeout (Some t) c w
              = (Inl e, c2, w3))
     \<and> cache (fst (snd (request env lib method endpoint params data json_data headers timeout
                           None c w))) = cache c
     \<and> ttl_seconds (Seconds x) = x
     \<and> ttl_seconds (Timedelta days secs micros)
         = real_of_int days * 86400 + real_of_int secs + real_of_int micros / 1000000"
proof -
  have a: "request env lib method endpoint params data json_data headers timeout (Some t) c w
      = fetch_and_store env lib method url data json_data headers timeout (Some t) key c2 w2"
    using assms(1-4) by (simp add: request_def Let_def truthy_def)
  have b: "cache (fst (snd (request env lib method endpoint params data json_data headers timeout
                           None c w))) = cache c"
    by (auto simp: request_def Let_def fetch_and_store_def split: prod.splits sum.splits)
  have c: "ttl_seconds (Seconds x) = x"
    by (simp add: ttl_seconds_def)
  have d: "ttl_seconds (Timedelta days secs micros)
         = real_of_int days * 86400 + real_of_int secs + real_of_int micros / 1000000"
    by (simp add: ttl_seconds_def field_simps)
  show ?thesis
    unfolding a using assms(5) b c d
    by (auto simp: fetch_and_store_def client_cache_set_def cache_set_def Let_def ok_int)
qed


theorem store_after_miss_witness:
  "client_cache_get sample_env sample_lib
     (generate_key sample_lib ''GET'' (full_url sample_lib sample_client ''/api'' None)
        None None None)
     sample_client sample_world
     = (None, sample_client, sample_world\<lparr> tick := 2 \<rparr>)
   \<and> fst (exec_fetch sample_env sample_lib sample_client
          (full_url sample_lib sample_client ''/api'' None)
          (fetch_options sample_lib ''GET'' None None None) 30 (sample_world\<lparr> tick := 2 \<rparr>))
       = Response test_data
   \<and> (\<exists>resp. Response test_data = Inr resp \<and> status_code resp = JInt 200 \<and> ok resp
         \<and> raw_data resp = test_data)
   \<and> cache (fst (snd (request sample_env sample_lib ''GET'' ''/api'' None None None None 30
                         (Some (Seconds 60)) sample_client sample_world)))
        (generate_key sample_lib ''GET'' (full_url sample_lib sample_client ''/api'' None)
           None None None)
       = Some (json_dumps sample_lib False (JDict test_data), 1060)"
proof -
  let ?url = "full_url sample_lib sample_client ''/api'' None"
  let ?key = "generate_key sample_lib ''GET'' ?url None None None"
  let ?opts = "fetch_options sample_lib ''GET'' None None None"
  let ?script = "FetchScript (json_dumps sample_lib False (JStr ?url))
                   (json_dumps sample_lib False (JDict ?opts)) (timeout_ms_of 30)"
  let ?w2 = "sample_world\<lparr> tick := 2 \<rparr>"
  let ?w3 = "called sample_env (RunCdp ?script) ?w2"
  have w1: "sample_world = ensure_cors_context sample_env sample_lib sample_client ?url
                             sample_world"
    by (simp add: ensure_cors_context_def sample_client_def)
  have miss: "client_cache_get sample_env sample_lib ?key sample_client sample_world
                = (None, sample_client, ?w2)"
    by (simp add: client_cache_get_def cache_get_def sample_env_def sample_client_def
        sample_world_def)
  have v: "validate_fetch_response (JDict test_data) = Some test_data"
    by (simp add: validate_fetch_response_def test_data_def has_key_def)
  have ne: "test_data \<noteq> []"
    by (simp add: test_data_def)
  have noerr: "\<not> has_key test_data ''error''"
    by (simp add: test_data_def has_key_def)
  have g1: "\<not> has_key [(''result'', JDict [(''value'', JDict test_data)])] ''exceptionDetails''"
    by (simp add: has_key_def)
  have g2: "dict_get [(''result'', JDict [(''value'', JDict test_data)])] ''result'' (JDict [])
              = JDict [(''value'', JDict test_data)]"
    by (simp add: dict_get_def)
  have g3: "dict_get [(''value'', JDict test_data)] ''value'' JNull = JDict test_data"
    by (simp add: dict_get_def)
  have rd: "read_cdp_result sample_lib 30 [(''result'', JDict [(''value'', JDict test_data)])]
              = Response test_data"
    by (simp add: read_cdp_result_def g1 g2 g3 noerr v ne)
  have fetch: "exec_fetch sample_env sample_lib sample_client ?url ?opts 30 ?w2
                 = (Response test_data, ?w3)"
    by (simp add: exec_fetch_def do_run_cdp_def Let_def rd sample_env_def sample_client_def)
  have resp: "\<exists>resp. Response test_data = Inr resp \<and> status_code resp = JInt 200 \<and> ok resp
                \<and> raw_data resp = test_data"
    by (simp add: Response_def dict_get_def ok_def test_data_def)
  then obtain resp where r: "Response test_data = Inr resp" and okr: "ok resp"
    and raw: "raw_data resp = test_data"
    by blast
  have db: "sqlite sample_env (tick ?w3) = Done"
    by (simp add: sample_env_def)
  have clk: "clock ?w3 = 1000"
    by (simp add: called_def sample_env_def sample_world_def)
  from store_after_miss [where t = "Seconds 60" and x = 0 and days = 0 and secs = 0
      and micros = 0, OF refl w1 refl miss fetch] r okr db
  have "cache (fst (snd (request sample_env sample_lib ''GET'' ''/api'' None None None None 30
                         (Some (Seconds 60)) sample_client sample_world))) ?key
          = Some (json_dumps sample_lib False (JDict (raw_data resp)),
                  clock ?w3 + ttl_seconds (Seconds 60))"
    by blast
  then have stored: "cache (fst (snd (request sample_env sample_lib ''GET'' ''/api'' None None None
                         None 30 (Some (Seconds 60)) sample_client sample_world))) ?key
          = Some (json_dumps sample_lib False (JDict test_data), 1060)"
    by (simp add: raw clk ttl_seconds_def)
  from miss fetch resp stored show ?thesis
    by simp
qed

end
